theory Spec2Isabelle
  imports Complex_Main
begin

section \<open>Python values, object identities and exceptions\<close>

text \<open>
  The development embeds \<^verbatim>\<open>aguaclara/design/component.py\<close> and
  \<^verbatim>\<open>aguaclara/design/pipeline.py\<close>.

  An object is known by its identity (\<^verbatim>\<open>id(obj)\<close>), a natural number. A physical
  quantity is modelled by its magnitude, a real number, in one fixed unit per kind of
  quantity (inch for sizes and diameters, metre for lengths and head losses, litre per
  second for flow rates, degree Celsius for temperatures, degree for angles); a unit
  conversion \<^verbatim>\<open>.to(...)\<close> is therefore the identity. A float is modelled by the real
  number it denotes. The source's arithmetic is floating point: the addition of head
  losses along a pipeline, the one place where a stated property depends on rounding,
  is a parameter (\<open>float_add\<close> below); the arithmetic of the solver's loop, whose
  results no statement uses, is that of the reals.
\<close>

type_synonym addr = nat

datatype pyval = Num real | Str string | Ref addr | PyNone

text \<open>The exceptions the two modules raise or let through, each with its message.\<close>

datatype error =
    AttributeError string
  | TypeError string
  | ValueError string
  | KeyError string
  | IndexError string
  | RecursionError
  | ZeroDivisionError
  | OtherError string

text \<open>\<^verbatim>\<open>KeyError\<close> is a subclass of \<^verbatim>\<open>LookupError\<close> in Python.\<close>

fun is_LookupError :: "error \<Rightarrow> bool" where
  "is_LookupError (KeyError _) = True"
| "is_LookupError _ = False"

text \<open>Keyword arguments \<^verbatim>\<open>**kwargs\<close>: a dictionary from names to values, in call order.\<close>

type_synonym kwargs = "(string \<times> pyval) list"

definition has_key :: "kwargs \<Rightarrow> string \<Rightarrow> bool" where
  "has_key kw k = (k \<in> set (map fst kw))"

text \<open>Python's \<^verbatim>\<open>hex\<close> on a non-negative integer: \<^verbatim>\<open>0x\<close> and the lower-case digits.\<close>

fun hex_digits :: "nat \<Rightarrow> string" where
  "hex_digits n =
     (if n < 16 then [''0123456789abcdef'' ! n]
      else hex_digits (n div 16) @ [''0123456789abcdef'' ! (n mod 16)])"

declare hex_digits.simps [simp del]

definition hex :: "nat \<Rightarrow> string" where
  "hex n = ''0x'' @ hex_digits n"

section \<open>component.py: the shared plant inputs\<close>

text \<open>
  \<^verbatim>\<open>class PlantInput\<close>: an object with the two attributes \<^verbatim>\<open>q\<close> and \<^verbatim>\<open>temp\<close>.
  Its constructor stores whatever it is given.
\<close>

record PlantInput =
  pi_q :: pyval
  pi_temp :: pyval

text \<open>
  The class attribute \<^verbatim>\<open>PlantInput.configs\<close> is a dictionary from the \<^verbatim>\<open>mem_loc\<close>
  string of a component to a \<^verbatim>\<open>PlantInput\<close> object. A dictionary holds references: the
  model keeps the references (\<open>configs\<close>) apart from the objects they point to
  (\<open>plant_inputs\<close>), so that two keys can share one object. \<open>fresh\<close> is the
  reference the next \<^verbatim>\<open>PlantInput(...)\<close> call allocates.
\<close>

record registry =
  configs :: "string \<rightharpoonup> addr"
  plant_inputs :: "addr \<Rightarrow> PlantInput"
  fresh :: addr

text \<open>
  \<^verbatim>\<open>class Component\<close>: its one attribute of its own is \<^verbatim>\<open>mem_loc\<close>, which only
  \<^verbatim>\<open>Component.__init__\<close> assigns. On an object that \<^verbatim>\<open>Component.__init__\<close> has not
  run on, the attribute does not exist: \<open>None\<close> here.
\<close>

record component =
  mem_loc :: "string option"

text \<open>Reading an attribute that does not exist raises \<^verbatim>\<open>AttributeError\<close>.\<close>

definition no_mem_loc :: string where
  "no_mem_loc = ''object has no attribute mem_loc''"

text \<open>
  The call \<^verbatim>\<open>Component.__init__(self, **kwargs)\<close> binds \<^verbatim>\<open>kwargs\<close> to the signature
  \<^verbatim>\<open>(self, q=20.0 * u.L/u.s, temp=20.0 * u.degC)\<close>: a name other than \<^verbatim>\<open>q\<close> and
  \<^verbatim>\<open>temp\<close> is a \<^verbatim>\<open>TypeError\<close> of the call itself, before the body runs. The
  message names the first such keyword; its wording varies with the interpreter's
  version and nothing below depends on it.
\<close>

definition unexpected_kw :: "string \<Rightarrow> string" where
  "unexpected_kw k = ''__init__() got an unexpected keyword argument '' @ [CHR 0x27] @ k @ [CHR 0x27]"

definition bind_q_temp :: "kwargs \<Rightarrow> error + (pyval \<times> pyval)" where
  "bind_q_temp kw =
     (case filter (\<lambda>k. k \<notin> set [''q'', ''temp'']) (map fst kw) of
        k # _ \<Rightarrow> Inl (TypeError (unexpected_kw k))
      | [] \<Rightarrow>
          Inr (case map_of kw ''q'' of None \<Rightarrow> Num 20 | Some v \<Rightarrow> v,
               case map_of kw ''temp'' of None \<Rightarrow> Num 20 | Some v \<Rightarrow> v))"

text \<open>
  \<^verbatim>\<open>Component.__init__\<close>, for the object of identity \<open>self_id\<close>: sets \<^verbatim>\<open>mem_loc\<close> and
  registers a new \<^verbatim>\<open>PlantInput\<close> unless the key is there already.
\<close>

definition Component_init ::
  "registry \<Rightarrow> addr \<Rightarrow> 'a component_scheme \<Rightarrow> kwargs \<Rightarrow> error + ('a component_scheme \<times> registry)" where
  "Component_init reg self_id self kw =
     (case bind_q_temp kw of
        Inl e \<Rightarrow> Inl e
      | Inr (qv, tv) \<Rightarrow>
          (let self = self\<lparr>mem_loc := Some (hex self_id)\<rparr> in
           if hex self_id \<notin> dom (configs reg)
           then Inr (self,
                  reg\<lparr>configs := (configs reg)(hex self_id \<mapsto> fresh reg),
                      plant_inputs := (plant_inputs reg)(fresh reg := \<lparr>pi_q = qv, pi_temp = tv\<rparr>),
                      fresh := Suc (fresh reg)\<rparr>)
           else Inr (self, reg)))"

text \<open>
  The properties \<^verbatim>\<open>q\<close> and \<^verbatim>\<open>temp\<close>: the attribute \<^verbatim>\<open>self.mem_loc\<close> is read, the
  dictionary is looked up, and an attribute of the record found is read.
\<close>

definition Component_q :: "registry \<Rightarrow> 'a component_scheme \<Rightarrow> error + pyval" where
  "Component_q reg self =
     (case mem_loc self of
        None \<Rightarrow> Inl (AttributeError no_mem_loc)
      | Some k \<Rightarrow>
          (case configs reg k of
             None \<Rightarrow> Inl (KeyError k)
           | Some r \<Rightarrow> Inr (pi_q (plant_inputs reg r))))"

definition Component_temp :: "registry \<Rightarrow> 'a component_scheme \<Rightarrow> error + pyval" where
  "Component_temp reg self =
     (case mem_loc self of
        None \<Rightarrow> Inl (AttributeError no_mem_loc)
      | Some k \<Rightarrow>
          (case configs reg k of
             None \<Rightarrow> Inl (KeyError k)
           | Some r \<Rightarrow> Inr (pi_temp (plant_inputs reg r))))"

text \<open>
  The record a component is associated with: the reference the registry holds under
  the component's \<^verbatim>\<open>mem_loc\<close>, if the component has one and it is a key. A component is
  registered when this is some reference.
\<close>

definition record_of :: "registry \<Rightarrow> 'a component_scheme \<Rightarrow> addr option" where
  "record_of reg c = (case mem_loc c of None \<Rightarrow> None | Some k \<Rightarrow> configs reg k)"

text \<open>
  \<^verbatim>\<open>q\<close> is declared with \<^verbatim>\<open>@property\<close> and no setter: the assignment
  \<^verbatim>\<open>component.q = v\<close> raises \<^verbatim>\<open>AttributeError\<close> and changes nothing, whatever
  the component and the value. The message is the interpreter's.
\<close>

definition no_setter :: string where
  "no_setter = ''can't set attribute''"

definition Component_set_q :: "registry \<Rightarrow> 'a component_scheme \<Rightarrow> pyval \<Rightarrow> error + registry" where
  "Component_set_q reg self v = Inl (AttributeError no_setter)"

text \<open>
  \<^verbatim>\<open>propogate_config\<close>: the loop over \<^verbatim>\<open>subcomponents\<close>, each given by its identity
  (the loop reads nothing else of it). The right-hand side \<^verbatim>\<open>PlantInput.configs[self.mem_loc]\<close>
  is looked up anew in every iteration.
\<close>

fun propogate_config :: "registry \<Rightarrow> 'a component_scheme \<Rightarrow> addr list \<Rightarrow> error + registry" where
  "propogate_config reg self [] = Inr reg"
| "propogate_config reg self (subcomp # rest) =
     (let sub_mem_loc = hex subcomp in
      case mem_loc self of
        None \<Rightarrow> Inl (AttributeError no_mem_loc)
      | Some k \<Rightarrow>
          (case configs reg k of
             None \<Rightarrow> Inl (KeyError k)
           | Some r \<Rightarrow>
               propogate_config (reg\<lparr>configs := (configs reg)(sub_mem_loc \<mapsto> r)\<rparr>) self rest))"

text \<open>
  The statement \<^verbatim>\<open>PlantInput.configs[c.mem_loc].q = v\<close>: a plain attribute of the
  \<^verbatim>\<open>PlantInput\<close> object the component is associated with is overwritten in place.
\<close>

definition set_record_q :: "registry \<Rightarrow> 'a component_scheme \<Rightarrow> pyval \<Rightarrow> error + registry" where
  "set_record_q reg c v =
     (case mem_loc c of
        None \<Rightarrow> Inl (AttributeError no_mem_loc)
      | Some k \<Rightarrow>
          (case configs reg k of
             None \<Rightarrow> Inl (KeyError k)
           | Some r \<Rightarrow>
               Inr (reg\<lparr>plant_inputs := (plant_inputs reg)(r := (plant_inputs reg r)\<lparr>pi_q := v\<rparr>)\<rparr>)))"

section \<open>pipeline.py: what the module takes from outside\<close>

text \<open>
  The formula library (\<^verbatim>\<open>physchem\<close>, \<^verbatim>\<open>head_loss\<close>), the materials constants, the
  utility \<^verbatim>\<open>ceil_nearest\<close>, the catalogue columns read from the two databases and the
  division and addition of the units library are not part of the two modules: they are
  parameters.
  The flow and head-loss formulas may raise. \<^verbatim>\<open>viscosity_kinematic\<close> (called on the
  constant 20 degrees only) and \<^verbatim>\<open>ceil_nearest\<close> are taken to return.
  \<^verbatim>\<open>truediv\<close> is the division of two quantities, which raises
  \<^verbatim>\<open>ZeroDivisionError\<close> on Python floats and does not on NumPy floats.
  \<^verbatim>\<open>float_add\<close> is the addition of two head losses, a floating-point addition: it
  rounds, so it is neither exact nor associative, and nothing is assumed of it.
\<close>

record ext =
  viscosity_kinematic :: "real \<Rightarrow> real"
  flow_pipe :: "real \<Rightarrow> real \<Rightarrow> real \<Rightarrow> real \<Rightarrow> real \<Rightarrow> real \<Rightarrow> error + real"
  headloss_fric :: "pyval \<Rightarrow> real \<Rightarrow> real \<Rightarrow> real \<Rightarrow> real \<Rightarrow> error + real"
  elbow_minor_loss :: "pyval \<Rightarrow> real \<Rightarrow> real option \<Rightarrow> error + real"
  ceil_nearest :: "real \<Rightarrow> real list \<Rightarrow> real"
  truediv :: "real \<Rightarrow> real \<Rightarrow> error + real"
  float_add :: "real \<Rightarrow> real \<Rightarrow> real"
  AVAILABLE_SIZES :: "real list"
  AVAILABLE_IDS_SCH40 :: "real list"
  AVAILABLE_FITTING_SIZES :: "real list"
  AVAILABLE_FITTING_IDS :: "real list"
  PVC_PIPE_ROUGH :: real
  EL45_K_MINOR :: real
  EL90_K_MINOR :: real
  TEE_FLOW_BR_K_MINOR :: real
  TEE_FLOW_RUN_K_MINOR :: real

text \<open>NumPy's \<^verbatim>\<open>argmin\<close> (the first index of the least entry) and indexing.\<close>

fun argmin_aux :: "nat \<Rightarrow> real \<Rightarrow> nat \<Rightarrow> real list \<Rightarrow> nat" where
  "argmin_aux bi bv i [] = bi"
| "argmin_aux bi bv i (v # vs) =
     (if v < bv then argmin_aux i v (Suc i) vs else argmin_aux bi bv (Suc i) vs)"

definition argmin :: "real list \<Rightarrow> error + nat" where
  "argmin xs =
     (case xs of
        [] \<Rightarrow> Inl (ValueError ''attempt to get argmin of an empty sequence'')
      | x # rest \<Rightarrow> Inr (argmin_aux 0 x 1 rest))"

definition py_index :: "real list \<Rightarrow> nat \<Rightarrow> error + real" where
  "py_index xs i = (if i < length xs then Inr (xs ! i) else Inl (IndexError ''index out of bounds''))"

text \<open>
  Python's \<^verbatim>\<open>int\<close> on a string, in base 10: blanks around the literal are dropped; a
  sign may come first; then come decimal digits, where single underscores may stand
  between two digits.
\<close>

definition is_digit :: "char \<Rightarrow> bool" where
  "is_digit c = (48 \<le> (of_char c :: nat) \<and> (of_char c :: nat) \<le> 57)"

definition is_space :: "char \<Rightarrow> bool" where
  "is_space c = ((of_char c :: nat) \<in> set [9, 10, 11, 12, 13, 32])"

definition digit_val :: "char \<Rightarrow> nat" where
  "digit_val c = of_char c - 48"

definition digits_val :: "string \<Rightarrow> nat" where
  "digits_val cs = foldl (\<lambda>acc c. 10 * acc + digit_val c) 0 cs"

definition strip :: "string \<Rightarrow> string" where
  "strip s = rev (dropWhile is_space (rev (dropWhile is_space s)))"

fun digits_ok :: "string \<Rightarrow> bool" where
  "digits_ok [] = False"
| "digits_ok [c] = is_digit c"
| "digits_ok (c # u # cs) =
     (is_digit c \<and> (if u = CHR ''_'' then digits_ok cs else digits_ok (u # cs)))"

definition py_int :: "string \<Rightarrow> error + int" where
  "py_int s =
     (let t = strip s;
          (neg, ds) =
            (case t of
               c # rest \<Rightarrow> if c = CHR ''-'' then (True, rest)
                           else if c = CHR ''+'' then (False, rest) else (False, t)
             | [] \<Rightarrow> (False, t))
      in if digits_ok ds
         then Inr (if neg then - int (digits_val (filter is_digit ds))
                   else int (digits_val (filter is_digit ds)))
         else Inl (ValueError ''invalid literal for int() with base 10''))"

section \<open>pipeline.py: the components of a pipeline\<close>

text \<open>
  The three concrete classes. \<open>pytype\<close> is what \<^verbatim>\<open>type(obj)\<close> returns; the attributes
  a class adds to those of \<^verbatim>\<open>PipelineComponent\<close> are the fields of its variant.
  \<^verbatim>\<open>next\<close>, \<^verbatim>\<open>left\<close> and \<^verbatim>\<open>right\<close> hold a reference or \<^verbatim>\<open>None\<close>.
\<close>

datatype pytype = Pipe | Elbow | Tee

record pipe_fields =
  spec :: string
  length_a :: real
  pipe_rough :: real

record elbow_fields =
  angle :: real

record tee_fields =
  left :: "addr option"
  left_type :: string
  left_k_minor :: "real option"
  right :: "addr option"
  right_type :: string
  right_k_minor :: "real option"
  next_type :: "string option"

datatype variant = PipeV pipe_fields | ElbowV elbow_fields | TeeV tee_fields

record pcomp = component +
  size_a :: real
  nu :: real
  next_a :: "addr option"
  k_minor :: real
  id_a :: real
  variant :: variant

fun variant_type :: "variant \<Rightarrow> pytype" where
  "variant_type (PipeV _) = Pipe"
| "variant_type (ElbowV _) = Elbow"
| "variant_type (TeeV _) = Tee"

definition py_type :: "pcomp \<Rightarrow> pytype" where
  "py_type obj = variant_type (variant obj)"

text \<open>
  The objects of the program, by identity. Every reference of a running Python program
  points to an object, so the heap is a total function.
\<close>

type_synonym heap = "addr \<Rightarrow> pcomp"

text \<open>
  An object as \<^verbatim>\<open>__new__\<close> returns it, with the attributes its class sets in the first
  lines of its \<^verbatim>\<open>__init__\<close> given as \<open>i\<close> and \<open>v\<close>. It has no \<^verbatim>\<open>mem_loc\<close> yet.
  The attributes \<^verbatim>\<open>size\<close>, \<^verbatim>\<open>nu\<close>, \<^verbatim>\<open>next\<close> and \<^verbatim>\<open>k_minor\<close> are assigned by
  \<^verbatim>\<open>PipelineComponent.__init__\<close> before anything reads them; until then they hold
  placeholders here.
\<close>

definition new_object :: "real \<Rightarrow> variant \<Rightarrow> pcomp" where
  "new_object i v =
     \<lparr>mem_loc = None, size_a = 0, nu = 0, next_a = None, k_minor = 0, id_a = i, variant = v\<rparr>"

definition AVAILABLE_SPECS :: "string list" where
  "AVAILABLE_SPECS = [''sdr26'', ''sdr41'', ''sch40'']"

definition AVAILABLE_PATHS :: "string list" where
  "AVAILABLE_PATHS = [''branch'', ''run'', ''stopper'']"

definition both_msg :: string where
  "both_msg = ''A PipelineComponent must be instantiated with either the size or inner diameter, but not both.''"

definition get_available_size :: "ext \<Rightarrow> real \<Rightarrow> real" where
  "get_available_size X sz = ceil_nearest X sz (AVAILABLE_SIZES X)"

subsection \<open>Structural validation\<close>

text \<open>\<^verbatim>\<open>PipelineComponent._rep_ok\<close>, inherited by \<^verbatim>\<open>Pipe\<close> and \<^verbatim>\<open>Elbow\<close>.\<close>

definition PipelineComponent_rep_ok :: "heap \<Rightarrow> pcomp \<Rightarrow> error + unit" where
  "PipelineComponent_rep_ok H self =
     (case next_a self of
        None \<Rightarrow> Inr ()
      | Some n \<Rightarrow>
          if py_type self = Pipe \<and> py_type (H n) \<notin> set [Elbow, Tee]
          then Inl (TypeError ''Pipes must be connected with fittings.'')
          else if py_type self \<in> set [Elbow] \<and> py_type (H n) \<notin> set [Pipe]
          then Inl (TypeError ''Fittings must be followed by pipes.'')
          else Inr ())"

text \<open>\<^verbatim>\<open>Tee._rep_ok\<close>, which overrides it.\<close>

definition Tee_rep_ok :: "heap \<Rightarrow> pcomp \<Rightarrow> error + unit" where
  "Tee_rep_ok H self =
     (case variant self of
        TeeV t \<Rightarrow>
          if count_list [left_type t, right_type t] ''stopper'' \<noteq> 1
          then Inl (ValueError ''All tees must have one stopper.'')
          else if left_type t \<notin> set AVAILABLE_PATHS
          then Inl (ValueError ''type of branch for left outlet must be in '')
          else if right_type t \<notin> set AVAILABLE_PATHS
          then Inl (ValueError ''type of branch for right outlet must be in '')
          else if next_a self \<noteq> None \<and> size_a self \<noteq> size_a (H (the (next_a self)))
          then Inl (ValueError ''The next component doesn't have the same size.'')
          else if next_a self \<noteq> None \<and> py_type (H (the (next_a self))) \<in> set [Elbow, Tee]
          then Inl (ValueError ''Tees cannot be followed by other fittings.'')
          else Inr ()
      | _ \<Rightarrow> Inl (AttributeError ''left_type''))"

text \<open>The call \<^verbatim>\<open>self._rep_ok()\<close>: the method of the object's class.\<close>

definition rep_ok :: "heap \<Rightarrow> pcomp \<Rightarrow> error + unit" where
  "rep_ok H self =
     (case py_type self of
        Tee \<Rightarrow> Tee_rep_ok H self
      | _ \<Rightarrow> PipelineComponent_rep_ok H self)"

subsection \<open>Construction\<close>

text \<open>\<^verbatim>\<open>PipelineComponent.__init__\<close>.\<close>

definition PipelineComponent_init ::
  "ext \<Rightarrow> registry \<Rightarrow> heap \<Rightarrow> addr \<Rightarrow> pcomp \<Rightarrow> kwargs \<Rightarrow> error + (pcomp \<times> registry)" where
  "PipelineComponent_init X reg H self_id self kw =
     (if list_all (has_key kw) [''size'', ''id'']
      then Inl (AttributeError both_msg)
      else
        (let self = self\<lparr>size_a := 1/2, nu := viscosity_kinematic X 20,
                         next_a := None, k_minor := 0\<rparr> in
         case Component_init reg self_id self kw of
           Inl e \<Rightarrow> Inl e
         | Inr (self, reg) \<Rightarrow>
             (case rep_ok H self of
                Inl e \<Rightarrow> Inl e
              | Inr _ \<Rightarrow> Inr (self\<lparr>size_a := get_available_size X (size_a self)\<rparr>, reg))))"

text \<open>
  The methods of \<^verbatim>\<open>Pipe\<close> that derive one of size and inner diameter from the other.
  A method that assigns to \<^verbatim>\<open>self\<close> returns the object with its result.
\<close>

definition Pipe_get_id_sdr :: "ext \<Rightarrow> pcomp \<Rightarrow> real \<Rightarrow> int \<Rightarrow> error + (pcomp \<times> real)" where
  "Pipe_get_id_sdr X self sz sdr =
     (let self = self\<lparr>size_a := get_available_size X sz\<rparr> in
      case truediv X (size_a self * (of_int sdr - 2)) (of_int sdr) of
        Inl e \<Rightarrow> Inl e
      | Inr v \<Rightarrow> Inr (self, v))"

definition Pipe_get_id_sch40 :: "ext \<Rightarrow> pcomp \<Rightarrow> real \<Rightarrow> error + (pcomp \<times> real)" where
  "Pipe_get_id_sch40 X self sz =
     (let self = self\<lparr>size_a := get_available_size X sz\<rparr> in
      case argmin (map (\<lambda>a. \<bar>a - size_a self\<bar>) (AVAILABLE_SIZES X)) of
        Inl e \<Rightarrow> Inl e
      | Inr myindex \<Rightarrow>
          (case py_index (AVAILABLE_IDS_SCH40 X) myindex of
             Inl e \<Rightarrow> Inl e
           | Inr v \<Rightarrow> Inr (self, v)))"

definition Pipe_get_size_sdr :: "ext \<Rightarrow> pcomp \<Rightarrow> real \<Rightarrow> int \<Rightarrow> error + (pcomp \<times> real)" where
  "Pipe_get_size_sdr X self i sdr =
     (case truediv X (i * of_int sdr) (of_int sdr - 2) of
        Inl e \<Rightarrow> Inl e
      | Inr v \<Rightarrow>
          (let nd = get_available_size X v in
           case Pipe_get_id_sdr X self nd sdr of
             Inl e \<Rightarrow> Inl e
           | Inr (self, i') \<Rightarrow> Inr (self\<lparr>id_a := i'\<rparr>, nd)))"

definition Pipe_get_size_sch40 :: "ext \<Rightarrow> pcomp \<Rightarrow> real \<Rightarrow> error + (pcomp \<times> real)" where
  "Pipe_get_size_sch40 X self i =
     (case argmin (map (\<lambda>a. \<bar>a - i\<bar>) (AVAILABLE_IDS_SCH40 X)) of
        Inl e \<Rightarrow> Inl e
      | Inr myindex \<Rightarrow>
          (case py_index (AVAILABLE_IDS_SCH40 X) myindex of
             Inl e \<Rightarrow> Inl e
           | Inr v \<Rightarrow>
               (case py_index (AVAILABLE_SIZES X) myindex of
                  Inl e \<Rightarrow> Inl e
                | Inr s \<Rightarrow> Inr (self\<lparr>id_a := v\<rparr>, s))))"

text \<open>
  \<^verbatim>\<open>_get_size\<close> and \<^verbatim>\<open>_get_id\<close> return \<^verbatim>\<open>None\<close> for a spec that is neither an
  SDR one nor \<^verbatim>\<open>sch40\<close>: the result is optional.
\<close>

definition Pipe_get_size :: "ext \<Rightarrow> pcomp \<Rightarrow> real \<Rightarrow> string \<Rightarrow> error + (pcomp \<times> real option)" where
  "Pipe_get_size X self i sp =
     (if take 3 sp = ''sdr''
      then (case py_int (drop 3 sp) of
              Inl e \<Rightarrow> Inl e
            | Inr sdr \<Rightarrow>
                (case Pipe_get_size_sdr X self i sdr of
                   Inl e \<Rightarrow> Inl e
                 | Inr (self, s) \<Rightarrow> Inr (self, Some s)))
      else if sp = ''sch40''
      then (case Pipe_get_size_sch40 X self i of
              Inl e \<Rightarrow> Inl e
            | Inr (self, s) \<Rightarrow> Inr (self, Some s))
      else Inr (self, None))"

definition Pipe_get_id :: "ext \<Rightarrow> pcomp \<Rightarrow> real \<Rightarrow> string \<Rightarrow> error + (pcomp \<times> real option)" where
  "Pipe_get_id X self sz sp =
     (if take 3 sp = ''sdr''
      then (case py_int (drop 3 sp) of
              Inl e \<Rightarrow> Inl e
            | Inr sdr \<Rightarrow>
                (case Pipe_get_id_sdr X self sz sdr of
                   Inl e \<Rightarrow> Inl e
                 | Inr (self, i) \<Rightarrow> Inr (self, Some i)))
      else if sp = ''sch40''
      then (case Pipe_get_id_sch40 X self sz of
              Inl e \<Rightarrow> Inl e
            | Inr (self, i) \<Rightarrow> Inr (self, Some i))
      else Inr (self, None))"

text \<open>
  \<^verbatim>\<open>Pipe.__init__\<close>. After the check against \<^verbatim>\<open>AVAILABLE_SPECS\<close> the spec is one
  of the three that \<^verbatim>\<open>_get_id\<close> and \<^verbatim>\<open>_get_size\<close> handle, so neither returns
  \<^verbatim>\<open>None\<close> here; the branch for it leaves the attribute as it is.
\<close>

definition Pipe_init ::
  "ext \<Rightarrow> registry \<Rightarrow> heap \<Rightarrow> addr \<Rightarrow> kwargs \<Rightarrow> error + (pcomp \<times> registry)" where
  "Pipe_init X reg H self_id kw =
     (let self = new_object (476/1000)
                   (PipeV \<lparr>spec = ''sdr41'', length_a = 1, pipe_rough = PVC_PIPE_ROUGH X\<rparr>) in
      case PipelineComponent_init X reg H self_id self kw of
        Inl e \<Rightarrow> Inl e
      | Inr (self, reg) \<Rightarrow>
          (case variant self of
             PipeV p \<Rightarrow>
               if spec p \<notin> set AVAILABLE_SPECS
               then Inl (AttributeError ''spec must be one of:'')
               else
                 (case (if has_key kw ''size''
                        then (case Pipe_get_id X self (size_a self) (spec p) of
                                Inl e \<Rightarrow> Inl e
                              | Inr (self, Some i) \<Rightarrow> Inr (self\<lparr>id_a := i\<rparr>)
                              | Inr (self, None) \<Rightarrow> Inr self)
                        else if has_key kw ''id''
                        then (case Pipe_get_size X self (id_a self) (spec p) of
                                Inl e \<Rightarrow> Inl e
                              | Inr (self, Some s) \<Rightarrow> Inr (self\<lparr>size_a := s\<rparr>)
                              | Inr (self, None) \<Rightarrow> Inr self)
                        else Inr self) of
                    Inl e \<Rightarrow> Inl e
                  | Inr self \<Rightarrow>
                      if next_a self \<noteq> None \<and> size_a self \<noteq> size_a (H (the (next_a self)))
                      then Inl (ValueError ''size of the next pipeline component must be the same size as the current pipeline component'')
                      else Inr (self, reg))
           | _ \<Rightarrow> Inl (AttributeError ''spec'')))"

text \<open>The two lookups of \<^verbatim>\<open>Elbow\<close> in the fitting tables, and \<^verbatim>\<open>Elbow.__init__\<close>.\<close>

definition Elbow_get_size :: "ext \<Rightarrow> pcomp \<Rightarrow> real \<Rightarrow> error + (pcomp \<times> real)" where
  "Elbow_get_size X self i =
     (case argmin (map (\<lambda>a. \<bar>a - i\<bar>) (AVAILABLE_FITTING_IDS X)) of
        Inl e \<Rightarrow> Inl e
      | Inr myindex \<Rightarrow>
          (case py_index (AVAILABLE_FITTING_IDS X) myindex of
             Inl e \<Rightarrow> Inl e
           | Inr v \<Rightarrow>
               (case py_index (AVAILABLE_FITTING_SIZES X) myindex of
                  Inl e \<Rightarrow> Inl e
                | Inr s \<Rightarrow> Inr (self\<lparr>id_a := v\<rparr>, s))))"

definition Elbow_get_id :: "ext \<Rightarrow> pcomp \<Rightarrow> real \<Rightarrow> error + (pcomp \<times> real)" where
  "Elbow_get_id X self sz =
     (case argmin (map (\<lambda>a. \<bar>a - sz\<bar>) (AVAILABLE_FITTING_SIZES X)) of
        Inl e \<Rightarrow> Inl e
      | Inr myindex \<Rightarrow>
          (case py_index (AVAILABLE_FITTING_SIZES X) myindex of
             Inl e \<Rightarrow> Inl e
           | Inr s \<Rightarrow>
               (case py_index (AVAILABLE_FITTING_IDS X) myindex of
                  Inl e \<Rightarrow> Inl e
                | Inr v \<Rightarrow> Inr (self\<lparr>size_a := s\<rparr>, v))))"

definition Elbow_init ::
  "ext \<Rightarrow> registry \<Rightarrow> heap \<Rightarrow> addr \<Rightarrow> kwargs \<Rightarrow> error + (pcomp \<times> registry)" where
  "Elbow_init X reg H self_id kw =
     (let self = new_object (848/1000) (ElbowV \<lparr>angle = 90\<rparr>) in
      case PipelineComponent_init X reg H self_id self kw of
        Inl e \<Rightarrow> Inl e
      | Inr (self, reg) \<Rightarrow>
          (case variant self of
             ElbowV b \<Rightarrow>
               (case (if angle b = 45 then Inr (self\<lparr>k_minor := EL45_K_MINOR X\<rparr>)
                      else if angle b = 90 then Inr (self\<lparr>k_minor := EL90_K_MINOR X\<rparr>)
                      else Inl (ValueError ''angle must be in '')) of
                  Inl e \<Rightarrow> Inl e
                | Inr self \<Rightarrow>
                    (case (if has_key kw ''size''
                           then (case Elbow_get_id X self (size_a self) of
                                   Inl e \<Rightarrow> Inl e
                                 | Inr (self, i) \<Rightarrow> Inr (self\<lparr>id_a := i\<rparr>))
                           else if has_key kw ''id''
                           then (case Elbow_get_size X self (id_a self) of
                                   Inl e \<Rightarrow> Inl e
                                 | Inr (self, s) \<Rightarrow> Inr (self\<lparr>size_a := s\<rparr>))
                           else Inr self) of
                       Inl e \<Rightarrow> Inl e
                     | Inr self \<Rightarrow>
                         if next_a self \<noteq> None \<and> size_a self \<noteq> size_a (H (the (next_a self)))
                         then Inl (ValueError ''The next component doesn't have the same size.'')
                         else Inr (self, reg)))
           | _ \<Rightarrow> Inl (AttributeError ''angle'')))"

text \<open>The same two lookups in \<^verbatim>\<open>Tee\<close>, and \<^verbatim>\<open>Tee.__init__\<close>.\<close>

definition Tee_get_size :: "ext \<Rightarrow> pcomp \<Rightarrow> real \<Rightarrow> error + (pcomp \<times> real)" where
  "Tee_get_size X self i =
     (case argmin (map (\<lambda>a. \<bar>a - i\<bar>) (AVAILABLE_FITTING_IDS X)) of
        Inl e \<Rightarrow> Inl e
      | Inr myindex \<Rightarrow>
          (case py_index (AVAILABLE_FITTING_IDS X) myindex of
             Inl e \<Rightarrow> Inl e
           | Inr v \<Rightarrow>
               (case py_index (AVAILABLE_FITTING_SIZES X) myindex of
                  Inl e \<Rightarrow> Inl e
                | Inr s \<Rightarrow> Inr (self\<lparr>id_a := v\<rparr>, s))))"

definition Tee_get_id :: "ext \<Rightarrow> pcomp \<Rightarrow> real \<Rightarrow> error + (pcomp \<times> real)" where
  "Tee_get_id X self sz =
     (case argmin (map (\<lambda>a. \<bar>a - sz\<bar>) (AVAILABLE_FITTING_SIZES X)) of
        Inl e \<Rightarrow> Inl e
      | Inr myindex \<Rightarrow>
          (case py_index (AVAILABLE_FITTING_SIZES X) myindex of
             Inl e \<Rightarrow> Inl e
           | Inr s \<Rightarrow>
               (case py_index (AVAILABLE_FITTING_IDS X) myindex of
                  Inl e \<Rightarrow> Inl e
                | Inr v \<Rightarrow> Inr (self\<lparr>size_a := s\<rparr>, v))))"

text \<open>The two \<^verbatim>\<open>if/elif\<close> chains that choose an outlet's minor-loss coefficient.\<close>

definition outlet_k_minor :: "ext \<Rightarrow> string \<Rightarrow> real option \<Rightarrow> real option" where
  "outlet_k_minor X ty old =
     (if ty = ''branch'' then Some (TEE_FLOW_BR_K_MINOR X)
      else if ty = ''run'' then Some (TEE_FLOW_RUN_K_MINOR X)
      else if ty = ''stopper'' then None
      else old)"

definition Tee_init ::
  "ext \<Rightarrow> registry \<Rightarrow> heap \<Rightarrow> addr \<Rightarrow> kwargs \<Rightarrow> error + (pcomp \<times> registry)" where
  "Tee_init X reg H self_id kw =
     (let self = new_object (848/1000)
                   (TeeV \<lparr>left = None, left_type = ''branch'', left_k_minor = None,
                          right = None, right_type = ''stopper'', right_k_minor = None,
                          next_type = None\<rparr>) in
      case PipelineComponent_init X reg H self_id self kw of
        Inl e \<Rightarrow> Inl e
      | Inr (self, reg) \<Rightarrow>
          (case variant self of
             TeeV t \<Rightarrow>
               (let t = t\<lparr>left_k_minor := outlet_k_minor X (left_type t) (left_k_minor t)\<rparr>;
                    t = t\<lparr>right_k_minor := outlet_k_minor X (right_type t) (right_k_minor t)\<rparr>;
                    self = (if left_type t = ''stopper''
                            then self\<lparr>next_a := right t,
                                      variant := TeeV (t\<lparr>next_type := Some (right_type t)\<rparr>)\<rparr>
                            else self\<lparr>next_a := left t,
                                      variant := TeeV (t\<lparr>next_type := Some (left_type t)\<rparr>)\<rparr>)
                in
                case (if has_key kw ''size''
                      then (case Tee_get_id X self (size_a self) of
                              Inl e \<Rightarrow> Inl e
                            | Inr (self, i) \<Rightarrow> Inr (self\<lparr>id_a := i\<rparr>))
                      else if has_key kw ''id''
                      then (case Tee_get_size X self (id_a self) of
                              Inl e \<Rightarrow> Inl e
                            | Inr (self, s) \<Rightarrow> Inr (self\<lparr>size_a := s\<rparr>))
                      else Inr self) of
                  Inl e \<Rightarrow> Inl e
                | Inr self \<Rightarrow>
                    (case rep_ok H self of
                       Inl e \<Rightarrow> Inl e
                     | Inr _ \<Rightarrow> Inr (self, reg)))
           | _ \<Rightarrow> Inl (AttributeError ''left_type'')))"

subsection \<open>Head loss\<close>

text \<open>The property \<^verbatim>\<open>headloss\<close> of each class, and the attribute read that picks it.\<close>

definition Pipe_headloss :: "ext \<Rightarrow> registry \<Rightarrow> pcomp \<Rightarrow> pipe_fields \<Rightarrow> error + real" where
  "Pipe_headloss X reg self p =
     (case Component_q reg self of
        Inl e \<Rightarrow> Inl e
      | Inr qv \<Rightarrow> headloss_fric X qv (id_a self) (length_a p) (nu self) (pipe_rough p))"

definition Elbow_headloss :: "ext \<Rightarrow> registry \<Rightarrow> pcomp \<Rightarrow> error + real" where
  "Elbow_headloss X reg self =
     (case Component_q reg self of
        Inl e \<Rightarrow> Inl e
      | Inr qv \<Rightarrow> elbow_minor_loss X qv (id_a self) (Some (k_minor self)))"

definition Tee_headloss_left :: "ext \<Rightarrow> registry \<Rightarrow> pcomp \<Rightarrow> tee_fields \<Rightarrow> error + real" where
  "Tee_headloss_left X reg self t =
     (case Component_q reg self of
        Inl e \<Rightarrow> Inl e
      | Inr qv \<Rightarrow> elbow_minor_loss X qv (id_a self) (left_k_minor t))"

definition Tee_headloss_right :: "ext \<Rightarrow> registry \<Rightarrow> pcomp \<Rightarrow> tee_fields \<Rightarrow> error + real" where
  "Tee_headloss_right X reg self t =
     (case Component_q reg self of
        Inl e \<Rightarrow> Inl e
      | Inr qv \<Rightarrow> elbow_minor_loss X qv (id_a self) (right_k_minor t))"

definition Tee_headloss :: "ext \<Rightarrow> registry \<Rightarrow> pcomp \<Rightarrow> tee_fields \<Rightarrow> error + real" where
  "Tee_headloss X reg self t =
     (if left_type t = ''stopper'' then Tee_headloss_right X reg self t
      else Tee_headloss_left X reg self t)"

definition headloss :: "ext \<Rightarrow> registry \<Rightarrow> pcomp \<Rightarrow> error + real" where
  "headloss X reg self =
     (case variant self of
        PipeV p \<Rightarrow> Pipe_headloss X reg self p
      | ElbowV _ \<Rightarrow> Elbow_headloss X reg self
      | TeeV t \<Rightarrow> Tee_headloss X reg self t)"

text \<open>
  The property \<^verbatim>\<open>headloss_pipeline\<close> recurses along \<^verbatim>\<open>next\<close>. Python bounds the
  depth of recursion: \<open>d\<close> is the number of frames left, and a chain that needs more
  (a cyclic one needs any number) ends in \<^verbatim>\<open>RecursionError\<close>. The left operand of
  \<^verbatim>\<open>+\<close> is evaluated first; the sum is the floating-point sum of the component's own
  head loss and the aggregate of the rest, so the additions nest to the right.
\<close>

fun headloss_pipeline :: "ext \<Rightarrow> registry \<Rightarrow> heap \<Rightarrow> nat \<Rightarrow> pcomp \<Rightarrow> error + real" where
  "headloss_pipeline X reg H 0 self = Inl RecursionError"
| "headloss_pipeline X reg H (Suc d) self =
     (case next_a self of
        None \<Rightarrow> headloss X reg self
      | Some n \<Rightarrow>
          (case headloss X reg self of
             Inl e \<Rightarrow> Inl e
           | Inr h \<Rightarrow>
               (case headloss_pipeline X reg H d (H n) of
                  Inl e \<Rightarrow> Inl e
                | Inr r \<Rightarrow> Inr (float_add X h r))))"

subsection \<open>The flow solver\<close>

text \<open>
  \<^verbatim>\<open>set_next_components_q\<close>: the right-hand side \<^verbatim>\<open>self.q\<close> is read, then assigned to
  the property \<^verbatim>\<open>q\<close> of the next component, then the method recurses.
\<close>

fun set_next_components_q :: "registry \<Rightarrow> heap \<Rightarrow> nat \<Rightarrow> pcomp \<Rightarrow> error + registry" where
  "set_next_components_q reg H 0 self = Inl RecursionError"
| "set_next_components_q reg H (Suc d) self =
     (case next_a self of
        None \<Rightarrow> Inr reg
      | Some n \<Rightarrow>
          (case Component_q reg self of
             Inl e \<Rightarrow> Inl e
           | Inr qv \<Rightarrow>
               (case Component_set_q reg (H n) qv of
                  Inl e \<Rightarrow> Inl e
                | Inr reg' \<Rightarrow> set_next_components_q reg' H d (H n))))"

definition neither_msg :: string where
  "neither_msg = ''Neither of the first two components inthis pipeline are Pipe objects.''"

text \<open>
  The first guess of \<^verbatim>\<open>flow_pipeline\<close>. In the \<^verbatim>\<open>else\<close> branch the attributes of
  \<^verbatim>\<open>self.next\<close> are read inside \<^verbatim>\<open>try\<close>: \<^verbatim>\<open>None\<close> has no \<^verbatim>\<open>id\<close>, and only a
  \<^verbatim>\<open>Pipe\<close> has \<^verbatim>\<open>length\<close> and \<^verbatim>\<open>pipe_rough\<close>; every \<^verbatim>\<open>AttributeError\<close> raised
  there is replaced by the one with \<open>neither_msg\<close>.
\<close>

definition flow_seed :: "ext \<Rightarrow> heap \<Rightarrow> pcomp \<Rightarrow> real \<Rightarrow> error + real" where
  "flow_seed X H self target_headloss =
     (if py_type self = Pipe
      then (case variant self of
              PipeV p \<Rightarrow>
                flow_pipe X (id_a self) target_headloss (length_a p) (nu self)
                  (pipe_rough p) (k_minor self)
            | _ \<Rightarrow> Inl (AttributeError ''length''))
      else
        (case (case next_a self of
                 None \<Rightarrow> Inl (AttributeError ''NoneType object has no attribute id'')
               | Some n \<Rightarrow>
                   (case variant (H n) of
                      PipeV p \<Rightarrow>
                        flow_pipe X (id_a (H n)) target_headloss (length_a p) (nu (H n))
                          (pipe_rough p) (k_minor (H n))
                    | _ \<Rightarrow> Inl (AttributeError ''length''))) of
           Inl (AttributeError _) \<Rightarrow> Inl (AttributeError neither_msg)
         | Inl e \<Rightarrow> Inl e
         | Inr flow \<Rightarrow> Inr flow))"

text \<open>
  The \<^verbatim>\<open>while\<close> loop of \<^verbatim>\<open>flow_pipeline\<close>, with its variables \<open>flow\<close>, \<open>err\<close>
  and \<open>hl\<close> (the source's \<^verbatim>\<open>headloss\<close>) and the registry. The source sets no bound
  on the number of iterations: a run that never leaves the loop has the value \<open>None\<close>.
\<close>

partial_function (option) flow_loop ::
  "ext \<Rightarrow> heap \<Rightarrow> nat \<Rightarrow> pcomp \<Rightarrow> real \<Rightarrow> registry \<Rightarrow> real \<Rightarrow> real \<Rightarrow> real
     \<Rightarrow> (error + real \<times> registry) option" where
  "flow_loop X H d self target_headloss reg flow err hl =
     (if \<bar>err\<bar> > 1/100 then
        (case truediv X (target_headloss - hl) (target_headloss + hl) of
           Inl e \<Rightarrow> Some (Inl e)
         | Inr err' \<Rightarrow>
             (case Component_set_q reg self (Num (flow + err' * flow)) of
                Inl e \<Rightarrow> Some (Inl e)
              | Inr reg1 \<Rightarrow>
                  (case set_next_components_q reg1 H d self of
                     Inl e \<Rightarrow> Some (Inl e)
                   | Inr reg2 \<Rightarrow>
                       (case headloss_pipeline X reg2 H d self of
                          Inl e \<Rightarrow> Some (Inl e)
                        | Inr hl' \<Rightarrow>
                            flow_loop X H d self target_headloss reg2
                              (flow + err' * flow) err' hl'))))
      else Some (Inr (flow, reg)))"

definition flow_pipeline ::
  "ext \<Rightarrow> registry \<Rightarrow> heap \<Rightarrow> nat \<Rightarrow> pcomp \<Rightarrow> real \<Rightarrow> (error + real \<times> registry) option" where
  "flow_pipeline X reg H d self target_headloss =
     (case flow_seed X H self target_headloss of
        Inl e \<Rightarrow> Some (Inl e)
      | Inr flow \<Rightarrow>
          (case headloss_pipeline X reg H d self of
             Inl e \<Rightarrow> Some (Inl e)
           | Inr hl \<Rightarrow> flow_loop X H d self target_headloss reg flow 1 hl))"

subsection \<open>What a successful construction yields\<close>

text \<open>
  The registry after \<^verbatim>\<open>Component.__init__\<close> has run for the object of identity \<open>a\<close>
  with the flow rate \<open>qv\<close> and the temperature \<open>tv\<close>.
\<close>

definition register :: "registry \<Rightarrow> addr \<Rightarrow> pyval \<Rightarrow> pyval \<Rightarrow> registry" where
  "register reg a qv tv =
     (if hex a \<notin> dom (configs reg)
      then reg\<lparr>configs := (configs reg)(hex a \<mapsto> fresh reg),
               plant_inputs := (plant_inputs reg)(fresh reg := \<lparr>pi_q = qv, pi_temp = tv\<rparr>),
               fresh := Suc (fresh reg)\<rparr>
      else reg)"

text \<open>
  The objects that \<^verbatim>\<open>Pipe()\<close>, \<^verbatim>\<open>Elbow()\<close> and \<^verbatim>\<open>Tee()\<close> yield at identity \<open>a\<close>:
  every attribute as the chain of \<^verbatim>\<open>__init__\<close> methods assigns it when no option
  changes it. The constructors are shown below to yield these objects or to raise.
\<close>

definition default_Pipe :: "ext \<Rightarrow> addr \<Rightarrow> pcomp" where
  "default_Pipe X a =
     \<lparr>mem_loc = Some (hex a), size_a = get_available_size X (1/2), nu = viscosity_kinematic X 20,
      next_a = None, k_minor = 0, id_a = 476/1000,
      variant = PipeV \<lparr>spec = ''sdr41'', length_a = 1, pipe_rough = PVC_PIPE_ROUGH X\<rparr>\<rparr>"

definition default_Elbow :: "ext \<Rightarrow> addr \<Rightarrow> pcomp" where
  "default_Elbow X a =
     \<lparr>mem_loc = Some (hex a), size_a = get_available_size X (1/2), nu = viscosity_kinematic X 20,
      next_a = None, k_minor = EL90_K_MINOR X, id_a = 848/1000,
      variant = ElbowV \<lparr>angle = 90\<rparr>\<rparr>"

definition default_Tee :: "ext \<Rightarrow> addr \<Rightarrow> pcomp" where
  "default_Tee X a =
     \<lparr>mem_loc = Some (hex a), size_a = get_available_size X (1/2), nu = viscosity_kinematic X 20,
      next_a = None, k_minor = 0, id_a = 848/1000,
      variant = TeeV \<lparr>left = None, left_type = ''branch'',
                       left_k_minor = Some (TEE_FLOW_BR_K_MINOR X),
                       right = None, right_type = ''stopper'', right_k_minor = None,
                       next_type = Some ''branch''\<rparr>\<rparr>"

text \<open>
  A pipeline seen from its first component: \<open>chain H self as\<close> holds when following
  \<^verbatim>\<open>next\<close> from \<open>self\<close> visits the objects of identities \<open>as\<close>, in this order, and
  then reaches \<^verbatim>\<open>None\<close>. \<open>nodes\<close> are the components of the pipeline.
\<close>

fun chain :: "heap \<Rightarrow> pcomp \<Rightarrow> addr list \<Rightarrow> bool" where
  "chain H self [] = (next_a self = None)"
| "chain H self (a # as) = (next_a self = Some a \<and> chain H (H a) as)"

definition nodes :: "heap \<Rightarrow> pcomp \<Rightarrow> addr list \<Rightarrow> pcomp list" where
  "nodes H self as = self # map H as"

text \<open>
  The sum of a list of numbers under an addition \<open>add\<close>, nested to the right:
  \<open>h1 + (h2 + (... + hn))\<close>.
\<close>

fun sum_right :: "(real \<Rightarrow> real \<Rightarrow> real) \<Rightarrow> real list \<Rightarrow> real" where
  "sum_right add [] = 0"
| "sum_right add [h] = h"
| "sum_right add (h # g # hs) = add h (sum_right add (g # hs))"

text \<open>The same list added from the left, as \<^verbatim>\<open>h1 + h2 + ... + hn\<close> evaluates.\<close>

definition sum_left :: "(real \<Rightarrow> real \<Rightarrow> real) \<Rightarrow> real list \<Rightarrow> real" where
  "sum_left add hs = (case hs of [] \<Rightarrow> 0 | h # rest \<Rightarrow> foldl add h rest)"

section \<open>A concrete plant for evaluation\<close>

subsection \<open>The addition of Python floats\<close>

text \<open>
  A Python float is an IEEE 754 binary64 number, and the sum of two floats is their
  exact sum rounded to the nearest such number, ties going to the even significand.
  \<open>normalise\<close> finds the exponent \<open>e\<close> of the unit in the last place, the one with
  \<open>2 ^ 52 \<le> \<bar>x\<bar> / 2 ^ e < 2 ^ 53\<close>, by doubling or halving; below the normal range
  the exponent stays at \<open>- 1074\<close>. Sums beyond the largest float (which are infinite
  in Python) and the values \<^verbatim>\<open>inf\<close> and \<^verbatim>\<open>nan\<close> are not modelled.
\<close>

definition rne :: "real \<Rightarrow> int" where
  "rne x =
     (let f = \<lfloor>x\<rfloor>; d = x - of_int f
      in if d < 1/2 then f else if 1/2 < d then f + 1 else if even f then f else f + 1)"

fun normalise :: "nat \<Rightarrow> real \<Rightarrow> int \<Rightarrow> int" where
  "normalise 0 m e = e"
| "normalise (Suc n) m e =
     (if 2 ^ 53 \<le> m then normalise n (m / 2) (e + 1)
      else if m < 2 ^ 52 then normalise n (m * 2) (e - 1)
      else e)"

definition pow2 :: "int \<Rightarrow> real" where
  "pow2 e = (if 0 \<le> e then 2 ^ nat e else 1 / 2 ^ nat (- e))"

definition double_round :: "real \<Rightarrow> real" where
  "double_round x =
     (if x = 0 then 0
      else let e = max (normalise 2200 \<bar>x\<bar> 0) (- 1074)
           in sgn x * of_int (rne (\<bar>x\<bar> / pow2 e)) * pow2 e)"

definition double_add :: "real \<Rightarrow> real \<Rightarrow> real" where
  "double_add x y = double_round (x + y)"

text \<open>The floats that the literals \<^verbatim>\<open>0.1\<close>, \<^verbatim>\<open>0.2\<close> and \<^verbatim>\<open>0.3\<close> denote.\<close>

definition float_0_1 :: real where
  "float_0_1 = 3602879701896397 / 36028797018963968"

definition float_0_2 :: real where
  "float_0_2 = 3602879701896397 / 18014398509481984"

definition float_0_3 :: real where
  "float_0_3 = 5404319552844595 / 18014398509481984"

subsection \<open>Formulas, catalogue and objects\<close>

text \<open>
  One instance of the parameters, on which the definitions can be run: friction loss
  proportional to length and flow, minor loss proportional to coefficient and flow, a
  catalogue of four sizes, a division that raises on a zero divisor, and the addition
  of floats.
\<close>

definition ext0 :: ext where
  "ext0 =
     \<lparr>viscosity_kinematic = (\<lambda>T. 1),
      flow_pipe = (\<lambda>d h l n r k. Inr (d * h)),
      headloss_fric = (\<lambda>qv d l n r. case qv of Num x \<Rightarrow> Inr (l * x) | _ \<Rightarrow> Inl (TypeError ''flow'')),
      elbow_minor_loss = (\<lambda>qv d k. case (qv, k) of
                                      (Num x, Some c) \<Rightarrow> Inr (c * x)
                                    | _ \<Rightarrow> Inl (TypeError ''minor loss'')),
      ceil_nearest = (\<lambda>x xs. case filter (\<lambda>a. x \<le> a) xs of a # _ \<Rightarrow> a | [] \<Rightarrow> x),
      truediv = (\<lambda>a b. if b = 0 then Inl ZeroDivisionError else Inr (a / b)),
      float_add = double_add,
      AVAILABLE_SIZES = [1/2, 1, 2, 4],
      AVAILABLE_IDS_SCH40 = [6/10, 1, 2, 4],
      AVAILABLE_FITTING_SIZES = [1/2, 1, 2, 4],
      AVAILABLE_FITTING_IDS = [8/10, 1, 2, 4],
      PVC_PIPE_ROUGH = 1/10,
      EL45_K_MINOR = 2/10,
      EL90_K_MINOR = 9/10,
      TEE_FLOW_BR_K_MINOR = 1,
      TEE_FLOW_RUN_K_MINOR = 2/10\<rparr>"

text \<open>
  Three objects in a heap, at the identities 1, 2 and 3: a pipe, an elbow and a second
  pipe, linked in this order by assigning \<^verbatim>\<open>next\<close> after construction. Every other
  identity holds an unlinked elbow.
\<close>

definition pipe1 :: pcomp where
  "pipe1 = \<lparr>mem_loc = Some (hex 1), size_a = 1/2, nu = 1, next_a = Some 2, k_minor = 0, id_a = 476/1000,
            variant = PipeV \<lparr>spec = ''sdr41'', length_a = 1, pipe_rough = 1/10\<rparr>\<rparr>"

definition elbow2 :: pcomp where
  "elbow2 = \<lparr>mem_loc = Some (hex 2), size_a = 1/2, nu = 1, next_a = Some 3, k_minor = 9/10, id_a = 848/1000,
             variant = ElbowV \<lparr>angle = 90\<rparr>\<rparr>"

definition pipe3 :: pcomp where
  "pipe3 = \<lparr>mem_loc = Some (hex 3), size_a = 1/2, nu = 1, next_a = None, k_minor = 0, id_a = 476/1000,
            variant = PipeV \<lparr>spec = ''sdr41'', length_a = 1, pipe_rough = 1/10\<rparr>\<rparr>"

definition lone_elbow :: pcomp where
  "lone_elbow = \<lparr>mem_loc = Some (hex 2), size_a = 1/2, nu = 1, next_a = None, k_minor = 9/10, id_a = 848/1000,
                 variant = ElbowV \<lparr>angle = 90\<rparr>\<rparr>"

definition heap0 :: heap where
  "heap0 = (\<lambda>_. lone_elbow)(1 := pipe1, 2 := elbow2, 3 := pipe3)"

text \<open>
  A second plant of the same shape, whose formulas give the three components the head
  losses \<^verbatim>\<open>0.1\<close>, \<^verbatim>\<open>0.2\<close> and \<^verbatim>\<open>0.3\<close>: the friction loss of a pipe is its length,
  the minor loss of a fitting its coefficient.
\<close>

definition ext1 :: ext where
  "ext1 = ext0\<lparr>headloss_fric := (\<lambda>qv d l n r. Inr l),
               elbow_minor_loss := (\<lambda>qv d k. case k of
                                      Some c \<Rightarrow> Inr c
                                    | None \<Rightarrow> Inl (TypeError ''minor loss''))\<rparr>"

definition pipeA :: pcomp where
  "pipeA = pipe1\<lparr>variant := PipeV \<lparr>spec = ''sdr41'', length_a = float_0_1, pipe_rough = 1/10\<rparr>\<rparr>"

definition elbowB :: pcomp where
  "elbowB = elbow2\<lparr>k_minor := float_0_2\<rparr>"

definition pipeC :: pcomp where
  "pipeC = pipe3\<lparr>variant := PipeV \<lparr>spec = ''sdr41'', length_a = float_0_3, pipe_rough = 1/10\<rparr>\<rparr>"

definition heap1 :: heap where
  "heap1 = (\<lambda>_. lone_elbow)(1 := pipeA, 2 := elbowB, 3 := pipeC)"

text \<open>
  The registry of the plant: the three objects are registered, each with a record of
  its own; the pipe at 1 has the flow rate 5, the others the default 20.
\<close>

definition reg0 :: registry where
  "reg0 = \<lparr>configs = [hex 1 \<mapsto> 0, hex 2 \<mapsto> 1, hex 3 \<mapsto> 2],
          plant_inputs = (\<lambda>_. \<lparr>pi_q = Num 20, pi_temp = Num 20\<rparr>)
             (0 := \<lparr>pi_q = Num 5, pi_temp = Num 25\<rparr>),
          fresh = 3\<rparr>"

section \<open>Propagation shares the record\<close>

lemma hex_values:
  "hex 1 = ''0x1''" "hex (Suc 0) = ''0x1''" "hex 2 = ''0x2''" "hex 3 = ''0x3''" "hex 9 = ''0x9''"
  by (simp_all add: hex_def hex_digits.simps)

lemma propogate_config_result:
  assumes "mem_loc parent = Some k" and "configs reg k = Some r"
  shows "\<exists>reg'. propogate_config reg parent children = Inr reg'
           \<and> configs reg' k = Some r
           \<and> (\<forall>c \<in> set children. configs reg' (hex c) = Some r)
           \<and> (\<forall>k'. k' \<notin> hex ` set children \<longrightarrow> configs reg' k' = configs reg k')
           \<and> plant_inputs reg' = plant_inputs reg
           \<and> fresh reg' = fresh reg"
  using assms(2)
proof (induction children arbitrary: reg)
  case Nil
  then show ?case by simp
next
  case (Cons c cs)
  let ?reg1 = "reg\<lparr>configs := (configs reg)(hex c \<mapsto> r)\<rparr>"
  have r1: "configs ?reg1 k = Some r"
    using Cons.prems by simp
  from Cons.IH [OF r1] obtain reg' where
    run: "propogate_config ?reg1 parent cs = Inr reg'"
    and par: "configs reg' k = Some r"
    and kids: "\<forall>c' \<in> set cs. configs reg' (hex c') = Some r"
    and others: "\<forall>k'. k' \<notin> hex ` set cs \<longrightarrow> configs reg' k' = configs ?reg1 k'"
    and pis: "plant_inputs reg' = plant_inputs ?reg1"
    and fr: "fresh reg' = fresh ?reg1"
    by blast
  have step: "propogate_config reg parent (c # cs) = Inr reg'"
    using Cons.prems assms(1) run by simp
  have this_kid: "configs reg' (hex c) = Some r"
  proof (cases "hex c \<in> hex ` set cs")
    case True
    then show ?thesis using kids by auto
  next
    case False
    then show ?thesis using others by simp
  qed
  have others': "\<forall>k'. k' \<notin> hex ` set (c # cs) \<longrightarrow> configs reg' k' = configs reg k'"
    using others by simp
  show ?case
    using step par kids this_kid others' pis fr by simp
qed

text \<open>
  C3. A parent that is registered propagates to any list of children without error.
  Afterwards every child's key holds the very reference the parent's key holds (the same
  \<^verbatim>\<open>PlantInput\<close> object, not a copy), so a child (an object whose \<^verbatim>\<open>mem_loc\<close> is the
  \<^verbatim>\<open>hex\<close> of its identity, as \<^verbatim>\<open>Component.__init__\<close> sets it) reads the parent's flow
  rate, and after the parent's record is overwritten in place
  (\<^verbatim>\<open>PlantInput.configs[parent.mem_loc].q = v\<close>) the child reads the new value \<open>v\<close>.
\<close>

theorem propogate_config_shares_record:
  assumes "record_of reg parent = Some r"
    and "c \<in> set children"
    and "mem_loc child = Some (hex c)"
  shows "\<exists>reg'. propogate_config reg parent children = Inr reg'
           \<and> record_of reg' child = record_of reg' parent
           \<and> record_of reg' child = Some r
           \<and> Component_q reg' child = Inr (pi_q (plant_inputs reg r))
           \<and> Component_q reg' child = Component_q reg' parent
           \<and> (\<exists>reg''. set_record_q reg' parent v = Inr reg''
                 \<and> Component_q reg'' child = Inr v
                 \<and> Component_q reg'' parent = Inr v)"
proof -
  from assms(1) obtain k where k: "mem_loc parent = Some k" and kr: "configs reg k = Some r"
    by (auto simp: record_of_def split: option.splits)
  from propogate_config_result [OF k kr, of children] obtain reg' where
    run: "propogate_config reg parent children = Inr reg'"
    and par: "configs reg' k = Some r"
    and kids: "\<forall>c \<in> set children. configs reg' (hex c) = Some r"
    and pis: "plant_inputs reg' = plant_inputs reg"
    by blast
  have kid: "configs reg' (hex c) = Some r"
    using kids assms(2) by simp
  have rec_kid: "record_of reg' child = Some r"
    using kid assms(3) by (simp add: record_of_def)
  have rec_par: "record_of reg' parent = Some r"
    using par k by (simp add: record_of_def)
  have q_kid: "Component_q reg' child = Inr (pi_q (plant_inputs reg r))"
    using kid assms(3) pis by (simp add: Component_q_def)
  have q_par: "Component_q reg' parent = Inr (pi_q (plant_inputs reg r))"
    using par k pis by (simp add: Component_q_def)
  let ?reg2 = "reg'\<lparr>plant_inputs := (plant_inputs reg')(r := (plant_inputs reg' r)\<lparr>pi_q := v\<rparr>)\<rparr>"
  have set: "set_record_q reg' parent v = Inr ?reg2"
    using par k by (simp add: set_record_q_def)
  have "Component_q ?reg2 child = Inr v" "Component_q ?reg2 parent = Inr v"
    using kid par k assms(3) by (simp_all add: Component_q_def)
  with set have mut: "\<exists>reg''. set_record_q reg' parent v = Inr reg''
      \<and> Component_q reg'' child = Inr v \<and> Component_q reg'' parent = Inr v"
    by blast
  show ?thesis
    using run rec_kid rec_par q_kid q_par mut by simp
qed

theorem propogate_config_shares_record_witness:
  "\<exists>reg'. propogate_config reg0 pipe1 [2, 3] = Inr reg'
      \<and> record_of reg' elbow2 = record_of reg' pipe1
      \<and> Component_q reg' elbow2 = Inr (Num 5)
      \<and> (\<exists>reg''. set_record_q reg' pipe1 (Num 7) = Inr reg''
            \<and> Component_q reg'' elbow2 = Inr (Num 7))"
proof -
  have par: "record_of reg0 pipe1 = Some 0"
    by (simp add: record_of_def reg0_def pipe1_def hex_values)
  have mem: "(2::nat) \<in> set [2, 3]"
    by simp
  have kid: "mem_loc elbow2 = Some (hex 2)"
    by (simp add: elbow2_def)
  have val: "pi_q (plant_inputs reg0 0) = Num 5"
    by (simp add: reg0_def)
  from propogate_config_shares_record [OF par mem kid, of "Num 7"] val
  show ?thesis by auto
qed

section \<open>The accessors read the registry\<close>

lemma Component_init_registers:
  assumes "Component_init reg a c kw = Inr (c', reg')"
  shows "mem_loc c' = Some (hex a) \<and> (\<exists>r. configs reg' (hex a) = Some r)"
  using assms
  by (auto simp: Component_init_def Let_def split: sum.splits prod.splits if_splits)

text \<open>
  C8, as amended. The accessors \<^verbatim>\<open>q\<close> and \<^verbatim>\<open>temp\<close> of a registered component return
  the two attributes of the record its key refers to, whatever else the component
  holds: an overwrite of the record is what the accessor returns next, and two objects
  with the same \<^verbatim>\<open>mem_loc\<close> read the same values. Every component that
  \<^verbatim>\<open>Component.__init__\<close> has run on is registered, and its accessors return. An object
  that \<^verbatim>\<open>Component.__init__\<close> has never run on was never registered and has no
  \<^verbatim>\<open>mem_loc\<close>: its accessors raise \<^verbatim>\<open>AttributeError\<close>. The accessors of a component
  whose \<^verbatim>\<open>mem_loc\<close> is not a key of the registry raise \<^verbatim>\<open>KeyError\<close>, a
  \<^verbatim>\<open>LookupError\<close>.
\<close>

theorem accessors_resolve_through_registry:
  "(\<forall>r. record_of reg c = Some r \<longrightarrow>
         Component_q reg c = Inr (pi_q (plant_inputs reg r)) \<and>
         Component_temp reg c = Inr (pi_temp (plant_inputs reg r)) \<and>
         Component_q (reg\<lparr>plant_inputs := (plant_inputs reg)(r := \<lparr>pi_q = qv, pi_temp = tv\<rparr>)\<rparr>) c = Inr qv \<and>
         Component_temp (reg\<lparr>plant_inputs := (plant_inputs reg)(r := \<lparr>pi_q = qv, pi_temp = tv\<rparr>)\<rparr>) c = Inr tv)
   \<and> (mem_loc c' = mem_loc c \<longrightarrow>
         Component_q reg c' = Component_q reg c \<and> Component_temp reg c' = Component_temp reg c)
   \<and> (Component_init reg a c kw = Inr (c1, reg1) \<longrightarrow>
         (\<exists>r. record_of reg1 c1 = Some r \<and>
              Component_q reg1 c1 = Inr (pi_q (plant_inputs reg1 r)) \<and>
              Component_temp reg1 c1 = Inr (pi_temp (plant_inputs reg1 r))))
   \<and> (mem_loc c = None \<longrightarrow>
         record_of reg c = None \<and>
         Component_q reg c = Inl (AttributeError no_mem_loc) \<and>
         Component_temp reg c = Inl (AttributeError no_mem_loc))
   \<and> (\<forall>k. mem_loc c = Some k \<and> k \<notin> dom (configs reg) \<longrightarrow>
         (\<exists>e. Component_q reg c = Inl e \<and> is_LookupError e) \<and>
         (\<exists>e. Component_temp reg c = Inl e \<and> is_LookupError e))"
proof -
  have a: "\<forall>r. record_of reg c = Some r \<longrightarrow>
         Component_q reg c = Inr (pi_q (plant_inputs reg r)) \<and>
         Component_temp reg c = Inr (pi_temp (plant_inputs reg r)) \<and>
         Component_q (reg\<lparr>plant_inputs := (plant_inputs reg)(r := \<lparr>pi_q = qv, pi_temp = tv\<rparr>)\<rparr>) c = Inr qv \<and>
         Component_temp (reg\<lparr>plant_inputs := (plant_inputs reg)(r := \<lparr>pi_q = qv, pi_temp = tv\<rparr>)\<rparr>) c = Inr tv"
    by (auto simp: record_of_def Component_q_def Component_temp_def split: option.splits)
  have b: "mem_loc c' = mem_loc c \<longrightarrow>
         Component_q reg c' = Component_q reg c \<and> Component_temp reg c' = Component_temp reg c"
    by (simp add: Component_q_def Component_temp_def)
  have i: "Component_init reg a c kw = Inr (c1, reg1) \<longrightarrow>
         (\<exists>r. record_of reg1 c1 = Some r \<and>
              Component_q reg1 c1 = Inr (pi_q (plant_inputs reg1 r)) \<and>
              Component_temp reg1 c1 = Inr (pi_temp (plant_inputs reg1 r)))"
  proof
    assume "Component_init reg a c kw = Inr (c1, reg1)"
    from Component_init_registers [OF this] obtain r where
      "mem_loc c1 = Some (hex a)" "configs reg1 (hex a) = Some r"
      by blast
    then show "\<exists>r. record_of reg1 c1 = Some r \<and>
              Component_q reg1 c1 = Inr (pi_q (plant_inputs reg1 r)) \<and>
              Component_temp reg1 c1 = Inr (pi_temp (plant_inputs reg1 r))"
      by (simp add: record_of_def Component_q_def Component_temp_def)
  qed
  have n: "mem_loc c = None \<longrightarrow>
         record_of reg c = None \<and>
         Component_q reg c = Inl (AttributeError no_mem_loc) \<and>
         Component_temp reg c = Inl (AttributeError no_mem_loc)"
    by (simp add: record_of_def Component_q_def Component_temp_def)
  have k: "\<forall>k. mem_loc c = Some k \<and> k \<notin> dom (configs reg) \<longrightarrow>
         (\<exists>e. Component_q reg c = Inl e \<and> is_LookupError e) \<and>
         (\<exists>e. Component_temp reg c = Inl e \<and> is_LookupError e)"
    by (auto simp: Component_q_def Component_temp_def split: option.splits)
  show ?thesis using a b i n k by (intro conjI)
qed

theorem accessors_resolve_through_registry_witness:
  "Component_q reg0 pipe1 = Inr (Num 5)
   \<and> Component_temp reg0 pipe1 = Inr (Num 25)
   \<and> Component_q reg0 \<lparr>mem_loc = Some (hex 1)\<rparr> = Component_q reg0 pipe1
   \<and> (\<exists>r. record_of (register reg0 4 (Num 3) (Num 20)) \<lparr>mem_loc = Some (hex 4)\<rparr> = Some r)
   \<and> Component_q reg0 \<lparr>mem_loc = None\<rparr> = Inl (AttributeError no_mem_loc)
   \<and> (\<exists>e. Component_q reg0 \<lparr>mem_loc = Some (hex 9)\<rparr> = Inl e \<and> is_LookupError e)"
proof -
  have regd: "record_of reg0 pipe1 = Some 0"
    by (simp add: record_of_def reg0_def pipe1_def hex_values)
  have same: "mem_loc \<lparr>mem_loc = Some (hex 1)\<rparr> = mem_loc pipe1"
    by (simp add: pipe1_def)
  have vals: "pi_q (plant_inputs reg0 0) = Num 5" "pi_temp (plant_inputs reg0 0) = Num 25"
    by (simp_all add: reg0_def)
  have init: "Component_init reg0 4 \<lparr>mem_loc = None\<rparr> [(''q'', Num 3)]
      = Inr (\<lparr>mem_loc = Some (hex 4)\<rparr>, register reg0 4 (Num 3) (Num 20))"
    by (simp add: Component_init_def bind_q_temp_def register_def Let_def reg0_def
          hex_def hex_digits.simps)
  have none: "mem_loc \<lparr>mem_loc = None\<rparr> = None"
    by simp
  have unreg: "mem_loc \<lparr>mem_loc = Some (hex 9)\<rparr> = Some (hex 9) \<and> hex 9 \<notin> dom (configs reg0)"
    by (simp add: reg0_def hex_values)
  note a = accessors_resolve_through_registry [where c = pipe1 and reg = reg0,
      THEN conjunct1, THEN spec, THEN mp, OF regd]
  note b = accessors_resolve_through_registry [where c = pipe1 and reg = reg0,
      THEN conjunct2, THEN conjunct1, THEN mp, OF same]
  note i = accessors_resolve_through_registry [THEN conjunct2, THEN conjunct2, THEN conjunct1,
      THEN mp, OF init]
  note n = accessors_resolve_through_registry [where reg = reg0,
      THEN conjunct2, THEN conjunct2, THEN conjunct2, THEN conjunct1, THEN mp, OF none]
  note k = accessors_resolve_through_registry [where reg = reg0,
      THEN conjunct2, THEN conjunct2, THEN conjunct2, THEN conjunct2, THEN spec, THEN mp, OF unreg]
  show ?thesis using a b i n k vals by auto
qed

text \<open>
  C8 without the amendment fails for an object that \<^verbatim>\<open>Component.__init__\<close> never ran
  on (a subclass whose \<^verbatim>\<open>__init__\<close> does not call it): it was never registered, and
  its accessor raises \<^verbatim>\<open>AttributeError\<close>, which is no \<^verbatim>\<open>LookupError\<close>.
\<close>

theorem never_registered_is_AttributeError_counterexample:
  "record_of reg0 \<lparr>mem_loc = None\<rparr> = None
   \<and> Component_q reg0 \<lparr>mem_loc = None\<rparr> = Inl (AttributeError no_mem_loc)
   \<and> Component_temp reg0 \<lparr>mem_loc = None\<rparr> = Inl (AttributeError no_mem_loc)
   \<and> \<not> is_LookupError (AttributeError no_mem_loc)"
  by (simp add: record_of_def Component_q_def Component_temp_def)

section \<open>Structural validation of a link\<close>

lemma rep_ok_not_Tee:
  "py_type self \<noteq> Tee \<Longrightarrow> rep_ok H self = PipelineComponent_rep_ok H self"
  by (cases "py_type self") (simp_all add: rep_ok_def)



section \<open>The aggregate head loss of a pipeline\<close>

text \<open>The float model on the sample values: which exponent the rounding finds.\<close>

lemma normalise_up:
  assumes "2 ^ 52 \<le> m * 2 ^ k" and "m * 2 ^ k < 2 ^ 53" and "k < n"
  shows "normalise n m e = e - int k"
  using assms
proof (induction k arbitrary: n m e)
  case 0
  then obtain n' where "n = Suc n'" by (cases n) auto
  with 0 show ?case by simp
next
  case (Suc k)
  then obtain n' where n: "n = Suc n'" by (cases n) auto
  have pos: "(1::real) \<le> 2 ^ k" by simp
  have m_pos: "0 < m"
  proof (rule ccontr)
    assume "\<not> 0 < m"
    then have "m * 2 ^ Suc k \<le> 0" by (simp add: mult_le_0_iff)
    with Suc.prems(1) show False by simp
  qed
  have "m * 2 \<le> m * 2 * 2 ^ k"
    using m_pos pos by simp
  also have "\<dots> < 2 ^ 53"
    using Suc.prems(2) by (simp add: mult.assoc)
  finally have small: "m < 2 ^ 52" by simp
  have ih: "normalise n' (m * 2) (e - 1) = (e - 1) - int k"
    using Suc.prems n by (intro Suc.IH) (simp_all add: mult.assoc)
  show ?case using small n ih by simp
qed

lemma double_round_up:
  assumes "0 < x" and "2 ^ 52 \<le> x * 2 ^ k" and "x * 2 ^ k < 2 ^ 53" and "k \<le> 1074"
  shows "double_round x = of_int (rne (x * 2 ^ k)) / 2 ^ k"
proof -
  have "normalise 2200 x 0 = 0 - int k"
    using assms by (intro normalise_up) simp_all
  then have e: "max (normalise 2200 x 0) (- 1074) = - int k"
    using assms(4) by simp
  have p: "pow2 (- int k) = 1 / 2 ^ k"
    by (cases k) (simp_all add: pow2_def nat_add_distrib)
  have sg: "sgn x = 1" and ax: "\<bar>x\<bar> = x"
    using assms(1) by simp_all
  have nz: "x \<noteq> 0"
    using assms(1) by simp
  show ?thesis
    unfolding double_round_def Let_def ax sg e p using nz by simp
qed

lemma double_add_values:
  "double_add 18 20 = 38"
  "double_add 5 38 = 43"
  "double_add float_0_2 float_0_3 = 1/2"
  "double_add float_0_1 (1/2) = 5404319552844595 / 9007199254740992"
  "double_add float_0_1 float_0_2 = 1351079888211149 / 4503599627370496"
  "double_add (1351079888211149 / 4503599627370496) float_0_3 = 1351079888211149 / 2251799813685248"
proof -
  show "double_add 18 20 = 38"
    by (simp add: double_add_def double_round_up [where k = 47] rne_def)
  show "double_add 5 38 = 43"
    by (simp add: double_add_def double_round_up [where k = 47] rne_def)
  show "double_add float_0_2 float_0_3 = 1/2"
    by (simp add: double_add_def float_0_2_def float_0_3_def double_round_up [where k = 53] rne_def)
  show "double_add float_0_1 (1/2) = 5404319552844595 / 9007199254740992"
    by (simp add: double_add_def float_0_1_def double_round_up [where k = 53] rne_def)
  show "double_add float_0_1 float_0_2 = 1351079888211149 / 4503599627370496"
    by (simp add: double_add_def float_0_1_def float_0_2_def double_round_up [where k = 54] rne_def)
  show "double_add (1351079888211149 / 4503599627370496) float_0_3 = 1351079888211149 / 2251799813685248"
    by (simp add: double_add_def float_0_3_def double_round_up [where k = 53] rne_def)
qed

lemma headloss_pipeline_chain_sum:
  assumes "chain H self as"
    and "length as < d"
    and "\<forall>c \<in> set (nodes H self as). \<exists>h. headloss X reg c = Inr h"
  shows "headloss_pipeline X reg H d self
           = Inr (sum_right (float_add X) (map (\<lambda>c. projr (headloss X reg c)) (nodes H self as)))"
  using assms
proof (induction as arbitrary: self d)
  case Nil
  then obtain d' where d: "d = Suc d'" by (cases d) auto
  from Nil.prems(3) obtain h where "headloss X reg self = Inr h"
    by (auto simp: nodes_def)
  with Nil.prems(1) d show ?case by (simp add: nodes_def)
next
  case (Cons a as)
  then obtain d' where d: "d = Suc d'" by (cases d) auto
  from Cons.prems(3) obtain h where h: "headloss X reg self = Inr h"
    by (auto simp: nodes_def)
  have nxt: "next_a self = Some a" and ch: "chain H (H a) as"
    using Cons.prems(1) by simp_all
  have len: "length as < d'" using Cons.prems(2) d by simp
  have rest: "\<forall>c \<in> set (nodes H (H a) as). \<exists>h. headloss X reg c = Inr h"
    using Cons.prems(3) by (simp add: nodes_def)
  from Cons.IH [OF ch len rest]
  have "headloss_pipeline X reg H d' (H a)
          = Inr (sum_right (float_add X) (map (\<lambda>c. projr (headloss X reg c)) (nodes H (H a) as)))" .
  with nxt h d show ?case by (simp add: nodes_def)
qed

lemma headloss0:
  "headloss ext0 reg0 pipe1 = Inr 5"
  "headloss ext0 reg0 elbow2 = Inr 18"
  "headloss ext0 reg0 pipe3 = Inr 20"
  by (simp_all add: headloss_def Pipe_headloss_def Elbow_headloss_def Component_q_def
        pipe1_def elbow2_def pipe3_def reg0_def ext0_def hex_values)

lemma headloss1:
  "headloss ext1 reg0 pipeA = Inr float_0_1"
  "headloss ext1 reg0 elbowB = Inr float_0_2"
  "headloss ext1 reg0 pipeC = Inr float_0_3"
  by (simp_all add: headloss_def Pipe_headloss_def Elbow_headloss_def Component_q_def
        pipeA_def elbowB_def pipeC_def pipe1_def elbow2_def pipe3_def reg0_def ext1_def
        hex_values)

lemma float_add_ext: "float_add ext0 = double_add" "float_add ext1 = double_add"
  by (simp_all add: ext1_def ext0_def)

lemma heap0_at: "heap0 2 = elbow2" "heap0 3 = pipe3" "heap0 1 = pipe1" "heap0 (Suc 0) = pipe1"
  by (simp_all add: heap0_def)

lemma heap1_at: "heap1 2 = elbowB" "heap1 3 = pipeC" "heap1 1 = pipeA" "heap1 (Suc 0) = pipeA"
  by (simp_all add: heap1_def)

lemma chain0: "chain heap0 pipe1 [2, 3]"
  by (simp add: heap0_at) (simp add: pipe1_def elbow2_def pipe3_def)

lemma chain1: "chain heap1 pipeA [2, 3]"
  by (simp add: heap1_at) (simp add: pipeA_def elbowB_def pipeC_def pipe1_def elbow2_def pipe3_def)

lemma headloss_pipeline0: "headloss_pipeline ext0 reg0 heap0 3 pipe1 = Inr 43"
proof -
  have ns: "nodes heap0 pipe1 [2, 3] = [pipe1, elbow2, pipe3]"
    by (simp add: nodes_def heap0_at)
  have ok: "\<forall>c \<in> set (nodes heap0 pipe1 [2, 3]). \<exists>h. headloss ext0 reg0 c = Inr h"
    by (simp add: ns headloss0)
  from headloss_pipeline_chain_sum [OF chain0 _ ok, of 3]
  show ?thesis
    by (simp add: ns headloss0 float_add_ext double_add_values)
qed

lemma headloss_pipeline1:
  "headloss_pipeline ext1 reg0 heap1 3 pipeA = Inr (5404319552844595 / 9007199254740992)"
proof -
  have ns: "nodes heap1 pipeA [2, 3] = [pipeA, elbowB, pipeC]"
    by (simp add: nodes_def heap1_at)
  have ok: "\<forall>c \<in> set (nodes heap1 pipeA [2, 3]). \<exists>h. headloss ext1 reg0 c = Inr h"
    by (simp add: ns headloss1)
  from headloss_pipeline_chain_sum [OF chain1 _ ok, of 3]
  show ?thesis
    by (simp add: ns headloss1 float_add_ext double_add_values)
qed

text \<open>
  C2, as amended. For a pipeline whose components are \<open>nodes H self as\<close> (a chain that
  ends in \<^verbatim>\<open>None\<close>, short enough for the recursion depth \<open>d\<close>), when the head loss
  of every component evaluates, \<^verbatim>\<open>headloss_pipeline\<close> is the floating-point sum of
  these head losses, each computed on its own, added from the end of the pipeline
  backwards: \<open>h1 + (h2 + (... + hn))\<close>, whatever the addition of floats rounds to. For a
  component whose \<^verbatim>\<open>next\<close> is \<^verbatim>\<open>None\<close> it is the component's own \<^verbatim>\<open>headloss\<close>,
  whatever that evaluates to.
\<close>

theorem headloss_pipeline_is_right_nested_sum:
  "(chain H self as \<and> length as < d
      \<and> (\<forall>c \<in> set (nodes H self as). \<exists>h. headloss X reg c = Inr h) \<longrightarrow>
        headloss_pipeline X reg H d self
          = Inr (sum_right (float_add X) (map (\<lambda>c. projr (headloss X reg c)) (nodes H self as))))
   \<and> (next_a self = None \<longrightarrow> headloss_pipeline X reg H (Suc d') self = headloss X reg self)"
  using headloss_pipeline_chain_sum [of H self as d X reg] by simp

theorem headloss_pipeline_is_right_nested_sum_witness:
  "chain heap0 pipe1 [2, 3]
   \<and> headloss_pipeline ext0 reg0 heap0 3 pipe1 = Inr (double_add 5 (double_add 18 20))
   \<and> next_a pipe3 = None
   \<and> headloss_pipeline ext0 reg0 heap0 1 pipe3 = headloss ext0 reg0 pipe3"
proof -
  have len: "length [2::nat, 3] < 3"
    by simp
  have ns: "nodes heap0 pipe1 [2, 3] = [pipe1, elbow2, pipe3]"
    by (simp add: nodes_def heap0_at)
  have ok: "\<forall>c \<in> set (nodes heap0 pipe1 [2, 3]). \<exists>h. headloss ext0 reg0 c = Inr h"
    by (simp add: ns headloss0)
  have last: "next_a pipe3 = None"
    by (simp add: pipe3_def)
  have h: "chain heap0 pipe1 [2, 3] \<and> length [2::nat, 3] < 3
      \<and> (\<forall>c \<in> set (nodes heap0 pipe1 [2, 3]). \<exists>h. headloss ext0 reg0 c = Inr h)"
    using chain0 len ok by (intro conjI)
  note a = headloss_pipeline_is_right_nested_sum [where X = ext0 and reg = reg0,
      THEN conjunct1, THEN mp, OF h]
  note b = headloss_pipeline_is_right_nested_sum [where X = ext0 and reg = reg0 and H = heap0
      and d' = 0, THEN conjunct2, THEN mp, OF last]
  have a': "headloss_pipeline ext0 reg0 heap0 3 pipe1 = Inr (double_add 5 (double_add 18 20))"
    using a by (simp add: ns headloss0 float_add_ext)
  have b': "headloss_pipeline ext0 reg0 heap0 1 pipe3 = headloss ext0 reg0 pipe3"
    using b by simp
  show ?thesis using chain0 a' last b' by (intro conjI)
qed

text \<open>
  C2 without the amendment fails on a pipe, an elbow and a pipe whose head losses are
  the floats \<^verbatim>\<open>0.1\<close>, \<^verbatim>\<open>0.2\<close> and \<^verbatim>\<open>0.3\<close>: \<^verbatim>\<open>headloss_pipeline\<close> is the float
  \<^verbatim>\<open>0.6\<close>, which is neither the exact sum of the three head losses nor the float
  \<^verbatim>\<open>0.6000000000000001\<close> that adding them from the left gives.
\<close>

theorem headloss_pipeline_not_exact_sum_counterexample:
  "chain heap1 pipeA [2, 3]
   \<and> map (headloss ext1 reg0) (nodes heap1 pipeA [2, 3])
       = [Inr float_0_1, Inr float_0_2, Inr float_0_3]
   \<and> headloss_pipeline ext1 reg0 heap1 3 pipeA = Inr (5404319552844595 / 9007199254740992)
   \<and> headloss_pipeline ext1 reg0 heap1 3 pipeA \<noteq> Inr (float_0_1 + float_0_2 + float_0_3)
   \<and> sum_left (float_add ext1) [float_0_1, float_0_2, float_0_3]
       = 1351079888211149 / 2251799813685248
   \<and> headloss_pipeline ext1 reg0 heap1 3 pipeA
       \<noteq> Inr (sum_left (float_add ext1) [float_0_1, float_0_2, float_0_3])"
proof -
  have ns: "map (headloss ext1 reg0) (nodes heap1 pipeA [2, 3])
       = [Inr float_0_1, Inr float_0_2, Inr float_0_3]"
    by (simp add: nodes_def heap1_at headloss1)
  have exact: "float_0_1 + float_0_2 + float_0_3 \<noteq> 5404319552844595 / 9007199254740992"
    by (simp add: float_0_1_def float_0_2_def float_0_3_def)
  have left: "sum_left (float_add ext1) [float_0_1, float_0_2, float_0_3]
       = 1351079888211149 / 2251799813685248"
    by (simp add: sum_left_def float_add_ext double_add_values)
  have differ: "(1351079888211149 / 2251799813685248 :: real) \<noteq> 5404319552844595 / 9007199254740992"
    by simp
  show ?thesis
    using chain1 ns headloss_pipeline1 exact left differ by simp
qed

section \<open>Construction: which keyword arguments are accepted\<close>

lemma bind_q_temp_Inr_keys:
  assumes "bind_q_temp kw = Inr x" and "has_key kw k"
  shows "k = ''q'' \<or> k = ''temp''"
proof -
  from assms(1) have "filter (\<lambda>k. k \<notin> set [''q'', ''temp'']) (map fst kw) = []"
    by (auto simp: bind_q_temp_def split: list.splits)
  then have "\<forall>k \<in> set (map fst kw). k \<in> set [''q'', ''temp'']"
    by (simp add: filter_empty_conv)
  with assms(2) show ?thesis by (auto simp: has_key_def)
qed

lemma bind_q_temp_Inl:
  assumes "bind_q_temp kw = Inl e"
  shows "\<exists>k. e = TypeError (unexpected_kw k) \<and> has_key kw k \<and> k \<noteq> ''q'' \<and> k \<noteq> ''temp''"
proof -
  from assms obtain k ks where f: "filter (\<lambda>k. k \<notin> set [''q'', ''temp'']) (map fst kw) = k # ks"
    and e: "e = TypeError (unexpected_kw k)"
    by (auto simp: bind_q_temp_def split: list.splits)
  from f have "k \<in> set (filter (\<lambda>k. k \<notin> set [''q'', ''temp'']) (map fst kw))" by simp
  then have "k \<in> set (map fst kw) \<and> k \<notin> set [''q'', ''temp'']" by simp
  with e show ?thesis by (auto simp: has_key_def)
qed

lemma bind_q_temp_other_key:
  assumes "has_key kw k" and "k \<noteq> ''q''" and "k \<noteq> ''temp''"
  shows "\<exists>k'. bind_q_temp kw = Inl (TypeError (unexpected_kw k'))"
proof (cases "bind_q_temp kw")
  case (Inl e)
  with bind_q_temp_Inl show ?thesis by blast
next
  case (Inr x)
  from bind_q_temp_Inr_keys [OF Inr assms(1)] assms(2,3) show ?thesis by simp
qed

lemma Component_init_eq:
  "Component_init reg a self kw =
     (case bind_q_temp kw of
        Inl e \<Rightarrow> Inl e
      | Inr (qv, tv) \<Rightarrow> Inr (self\<lparr>mem_loc := Some (hex a)\<rparr>, register reg a qv tv))"
  by (simp add: Component_init_def register_def Let_def split: sum.splits prod.splits)

lemma Pipe_init_eq:
  "Pipe_init X reg H a kw =
     (if has_key kw ''size'' \<and> has_key kw ''id'' then Inl (AttributeError both_msg)
      else case bind_q_temp kw of
             Inl e \<Rightarrow> Inl e
           | Inr (qv, tv) \<Rightarrow> Inr (default_Pipe X a, register reg a qv tv))"
proof (cases "bind_q_temp kw")
  case (Inl e)
  then show ?thesis
    by (simp add: Pipe_init_def PipelineComponent_init_def Component_init_eq Let_def)
next
  case (Inr x)
  then have nk: "\<not> has_key kw ''size''" "\<not> has_key kw ''id''"
    using bind_q_temp_Inr_keys [of kw x] by auto
  obtain qv tv where x: "x = (qv, tv)" by (cases x)
  show ?thesis
    using Inr nk x
    by (simp add: Pipe_init_def PipelineComponent_init_def Component_init_eq Let_def
          new_object_def rep_ok_def py_type_def PipelineComponent_rep_ok_def
          AVAILABLE_SPECS_def default_Pipe_def)
qed

lemma Elbow_init_eq:
  "Elbow_init X reg H a kw =
     (if has_key kw ''size'' \<and> has_key kw ''id'' then Inl (AttributeError both_msg)
      else case bind_q_temp kw of
             Inl e \<Rightarrow> Inl e
           | Inr (qv, tv) \<Rightarrow> Inr (default_Elbow X a, register reg a qv tv))"
proof (cases "bind_q_temp kw")
  case (Inl e)
  then show ?thesis
    by (simp add: Elbow_init_def PipelineComponent_init_def Component_init_eq Let_def)
next
  case (Inr x)
  then have nk: "\<not> has_key kw ''size''" "\<not> has_key kw ''id''"
    using bind_q_temp_Inr_keys [of kw x] by auto
  obtain qv tv where x: "x = (qv, tv)" by (cases x)
  show ?thesis
    using Inr nk x
    by (simp add: Elbow_init_def PipelineComponent_init_def Component_init_eq Let_def
          new_object_def rep_ok_def py_type_def PipelineComponent_rep_ok_def
          default_Elbow_def)
qed

lemma Tee_init_eq:
  "Tee_init X reg H a kw =
     (if has_key kw ''size'' \<and> has_key kw ''id'' then Inl (AttributeError both_msg)
      else case bind_q_temp kw of
             Inl e \<Rightarrow> Inl e
           | Inr (qv, tv) \<Rightarrow> Inr (default_Tee X a, register reg a qv tv))"
proof (cases "bind_q_temp kw")
  case (Inl e)
  then show ?thesis
    by (simp add: Tee_init_def PipelineComponent_init_def Component_init_eq Let_def)
next
  case (Inr x)
  then have nk: "\<not> has_key kw ''size''" "\<not> has_key kw ''id''"
    using bind_q_temp_Inr_keys [of kw x] by auto
  obtain qv tv where x: "x = (qv, tv)" by (cases x)
  show ?thesis
    using Inr nk x
    by (simp add: Tee_init_def PipelineComponent_init_def Component_init_eq Let_def
          new_object_def rep_ok_def py_type_def Tee_rep_ok_def AVAILABLE_PATHS_def
          outlet_k_minor_def default_Tee_def)
qed


text \<open>
  C4. A construction of a pipe, an elbow or a tee whose keyword arguments hold both
  \<^verbatim>\<open>size\<close> and \<^verbatim>\<open>id\<close> raises the \<^verbatim>\<open>AttributeError\<close> that says a component takes one
  or the other (the spec's invalid configuration). A construction that holds at most one
  of the two raises no \<^verbatim>\<open>AttributeError\<close> at all.
\<close>

theorem size_and_id_together_rejected:
  "(has_key kw ''size'' \<and> has_key kw ''id'' \<longrightarrow>
      Pipe_init X reg H a kw = Inl (AttributeError both_msg) \<and>
      Elbow_init X reg H a kw = Inl (AttributeError both_msg) \<and>
      Tee_init X reg H a kw = Inl (AttributeError both_msg))
   \<and> (\<not> (has_key kw ''size'' \<and> has_key kw ''id'') \<longrightarrow>
      (\<forall>m. Pipe_init X reg H a kw \<noteq> Inl (AttributeError m)) \<and>
      (\<forall>m. Elbow_init X reg H a kw \<noteq> Inl (AttributeError m)) \<and>
      (\<forall>m. Tee_init X reg H a kw \<noteq> Inl (AttributeError m)))"
proof (cases "bind_q_temp kw")
  case (Inl e)
  with bind_q_temp_Inl obtain k where "e = TypeError (unexpected_kw k)" by blast
  with Inl show ?thesis
    by (simp add: Pipe_init_eq Elbow_init_eq Tee_init_eq)
next
  case (Inr x)
  then show ?thesis
    by (cases x) (simp add: Pipe_init_eq Elbow_init_eq Tee_init_eq)
qed

theorem size_and_id_together_rejected_witness:
  "Pipe_init ext0 reg0 heap0 4 [(''size'', Num 1), (''id'', Num 1)] = Inl (AttributeError both_msg)
   \<and> Elbow_init ext0 reg0 heap0 4 [(''id'', Num 1), (''size'', Num 1)] = Inl (AttributeError both_msg)
   \<and> Tee_init ext0 reg0 heap0 4 [(''size'', Num 1), (''q'', Num 3), (''id'', Num 1)] = Inl (AttributeError both_msg)
   \<and> Pipe_init ext0 reg0 heap0 4 [(''size'', Num 1)] \<noteq> Inl (AttributeError both_msg)
   \<and> Elbow_init ext0 reg0 heap0 4 [(''id'', Num 1)] \<noteq> Inl (AttributeError both_msg)
   \<and> Tee_init ext0 reg0 heap0 4 [] \<noteq> Inl (AttributeError both_msg)"
proof -
  have k1: "has_key [(''size'', Num 1), (''id'', Num 1)] ''size'' \<and> has_key [(''size'', Num 1), (''id'', Num 1)] ''id''"
    and k2: "has_key [(''id'', Num 1), (''size'', Num 1)] ''size'' \<and> has_key [(''id'', Num 1), (''size'', Num 1)] ''id''"
    and k3: "has_key [(''size'', Num 1), (''q'', Num 3), (''id'', Num 1)] ''size''
             \<and> has_key [(''size'', Num 1), (''q'', Num 3), (''id'', Num 1)] ''id''"
    and k4: "\<not> (has_key [(''size'', Num 1)] ''size'' \<and> has_key [(''size'', Num 1)] ''id'')"
    and k5: "\<not> (has_key [(''id'', Num 1)] ''size'' \<and> has_key [(''id'', Num 1)] ''id'')"
    and k6: "\<not> (has_key [] ''size'' \<and> has_key [] ''id'')"
    by (simp_all add: has_key_def)
  from size_and_id_together_rejected [of "[(''size'', Num 1), (''id'', Num 1)]" ext0 reg0 heap0 4] k1
  have a: "Pipe_init ext0 reg0 heap0 4 [(''size'', Num 1), (''id'', Num 1)] = Inl (AttributeError both_msg)"
    by blast
  from size_and_id_together_rejected [of "[(''id'', Num 1), (''size'', Num 1)]" ext0 reg0 heap0 4] k2
  have b: "Elbow_init ext0 reg0 heap0 4 [(''id'', Num 1), (''size'', Num 1)] = Inl (AttributeError both_msg)"
    by blast
  from size_and_id_together_rejected [of "[(''size'', Num 1), (''q'', Num 3), (''id'', Num 1)]" ext0 reg0 heap0 4] k3
  have c: "Tee_init ext0 reg0 heap0 4 [(''size'', Num 1), (''q'', Num 3), (''id'', Num 1)] = Inl (AttributeError both_msg)"
    by blast
  from size_and_id_together_rejected [of "[(''size'', Num 1)]" ext0 reg0 heap0 4] k4
  have d: "Pipe_init ext0 reg0 heap0 4 [(''size'', Num 1)] \<noteq> Inl (AttributeError both_msg)"
    by blast
  from size_and_id_together_rejected [of "[(''id'', Num 1)]" ext0 reg0 heap0 4] k5
  have e: "Elbow_init ext0 reg0 heap0 4 [(''id'', Num 1)] \<noteq> Inl (AttributeError both_msg)"
    by blast
  from size_and_id_together_rejected [of "[]" ext0 reg0 heap0 4] k6
  have f: "Tee_init ext0 reg0 heap0 4 [] \<noteq> Inl (AttributeError both_msg)"
    by blast
  show ?thesis using a b c d e f by simp
qed

text \<open>
  C9. A construction of a pipe, an elbow or a tee with a keyword argument other than
  \<^verbatim>\<open>q\<close> and \<^verbatim>\<open>temp\<close>, unless both \<^verbatim>\<open>size\<close> and \<^verbatim>\<open>id\<close> are given, raises
  the \<^verbatim>\<open>TypeError\<close> of an unexpected keyword argument, the same for the three classes.
  A construction that returns got no keyword but \<^verbatim>\<open>q\<close> and \<^verbatim>\<open>temp\<close> and returns the
  default object of its class: no option is ever assigned to an attribute.
\<close>

theorem unconsumed_kwargs_rejected:
  "(has_key kw k \<and> k \<noteq> ''q'' \<and> k \<noteq> ''temp'' \<and> \<not> (has_key kw ''size'' \<and> has_key kw ''id'') \<longrightarrow>
      (\<exists>k'. has_key kw k' \<and> k' \<noteq> ''q'' \<and> k' \<noteq> ''temp'' \<and>
         Pipe_init X reg H a kw = Inl (TypeError (unexpected_kw k')) \<and>
         Elbow_init X reg H a kw = Inl (TypeError (unexpected_kw k')) \<and>
         Tee_init X reg H a kw = Inl (TypeError (unexpected_kw k'))))
   \<and> (Pipe_init X reg H a kw = Inr (obj, reg') \<longrightarrow>
         obj = default_Pipe X a \<and> (\<forall>k. has_key kw k \<longrightarrow> k = ''q'' \<or> k = ''temp''))
   \<and> (Elbow_init X reg H a kw = Inr (obj, reg') \<longrightarrow>
         obj = default_Elbow X a \<and> (\<forall>k. has_key kw k \<longrightarrow> k = ''q'' \<or> k = ''temp''))
   \<and> (Tee_init X reg H a kw = Inr (obj, reg') \<longrightarrow>
         obj = default_Tee X a \<and> (\<forall>k. has_key kw k \<longrightarrow> k = ''q'' \<or> k = ''temp''))"
proof (cases "bind_q_temp kw")
  case (Inl e)
  with bind_q_temp_Inl obtain k' where
    "e = TypeError (unexpected_kw k')" "has_key kw k'" "k' \<noteq> ''q''" "k' \<noteq> ''temp''"
    by blast
  with Inl show ?thesis
    by (auto simp: Pipe_init_eq Elbow_init_eq Tee_init_eq split: if_splits)
next
  case (Inr x)
  from bind_q_temp_Inr_keys [OF Inr]
  have keys: "\<forall>k. has_key kw k \<longrightarrow> k = ''q'' \<or> k = ''temp''" by blast
  with Inr show ?thesis
    by (cases x) (auto simp: Pipe_init_eq Elbow_init_eq Tee_init_eq split: if_splits)
qed

theorem unconsumed_kwargs_rejected_witness:
  "(\<exists>k'. has_key [(''q'', Num 3), (''length'', Num 2)] k' \<and> k' \<noteq> ''q'' \<and> k' \<noteq> ''temp''
        \<and> Pipe_init ext0 reg0 heap0 4 [(''q'', Num 3), (''length'', Num 2)] = Inl (TypeError (unexpected_kw k'))
        \<and> Elbow_init ext0 reg0 heap0 4 [(''q'', Num 3), (''length'', Num 2)] = Inl (TypeError (unexpected_kw k'))
        \<and> Tee_init ext0 reg0 heap0 4 [(''q'', Num 3), (''length'', Num 2)] = Inl (TypeError (unexpected_kw k')))
   \<and> Pipe_init ext0 reg0 heap0 4 [(''q'', Num 3)]
        = Inr (default_Pipe ext0 4, register reg0 4 (Num 3) (Num 20))
   \<and> \<not> has_key [(''q'', Num 3)] ''length''"
proof -
  have h: "has_key [(''q'', Num 3), (''length'', Num 2)] ''length'' \<and> ''length'' \<noteq> ''q''
      \<and> ''length'' \<noteq> ''temp''
      \<and> \<not> (has_key [(''q'', Num 3), (''length'', Num 2)] ''size''
            \<and> has_key [(''q'', Num 3), (''length'', Num 2)] ''id'')"
    by (simp add: has_key_def)
  note a = unconsumed_kwargs_rejected [where X = ext0 and reg = reg0 and H = heap0 and a = 4,
      THEN conjunct1, THEN mp, OF h]
  have run: "Pipe_init ext0 reg0 heap0 4 [(''q'', Num 3)]
        = Inr (default_Pipe ext0 4, register reg0 4 (Num 3) (Num 20))"
    by (simp add: Pipe_init_eq has_key_def bind_q_temp_def)
  note b = unconsumed_kwargs_rejected [THEN conjunct2, THEN conjunct1, THEN mp, OF run,
      THEN conjunct2, THEN spec, of "''length''"]
  have c: "\<not> has_key [(''q'', Num 3)] ''length''"
    using b by auto
  show ?thesis using a run c by (intro conjI)
qed

section \<open>Construction: the options of a tee and of a pipe\<close>

text \<open>
  The validation of a tee does reject a number of stoppers other than one and a
  fitting as its next, and the SDR formula does derive the diameter from the snapped
  size; but no construction reaches either with an option of its own, as the two
  theorems after these lemmas show.
\<close>

lemma Tee_rep_ok_stopper_count:
  assumes "variant self = TeeV t"
    and "count_list [left_type t, right_type t] ''stopper'' \<noteq> 1"
  shows "rep_ok H self = Inl (ValueError ''All tees must have one stopper.'')"
  using assms by (simp add: rep_ok_def py_type_def Tee_rep_ok_def)

lemma Tee_init_result:
  assumes "Tee_init X reg H a kw = Inr (obj, reg')"
  shows "obj = default_Tee X a"
  using assms by (auto simp: Tee_init_eq split: if_splits sum.splits)

lemma Tee_rep_ok_fitting_next:
  assumes "variant self = TeeV t"
    and "count_list [left_type t, right_type t] ''stopper'' = 1"
    and "left_type t \<in> set AVAILABLE_PATHS" and "right_type t \<in> set AVAILABLE_PATHS"
    and "next_a self = Some n" and "size_a (H n) = size_a self"
    and "py_type (H n) \<in> {Elbow, Tee}"
  shows "rep_ok H self = Inl (ValueError ''Tees cannot be followed by other fittings.'')"
  using assms by (simp add: rep_ok_def py_type_def Tee_rep_ok_def)

lemma Pipe_get_id_not_None:
  "sp \<in> set AVAILABLE_SPECS \<Longrightarrow> Pipe_get_id X self sz sp \<noteq> Inr (self', None)"
  by (auto simp: AVAILABLE_SPECS_def Pipe_get_id_def split: sum.splits)

lemma Pipe_get_size_not_None:
  "sp \<in> set AVAILABLE_SPECS \<Longrightarrow> Pipe_get_size X self i sp \<noteq> Inr (self', None)"
  by (auto simp: AVAILABLE_SPECS_def Pipe_get_size_def split: sum.splits)

lemma Pipe_get_id_sdr_ratio:
  assumes "truediv X (get_available_size X sz * (of_int sdr - 2)) (of_int sdr) = Inr v"
  shows "Pipe_get_id_sdr X self sz sdr = Inr (self\<lparr>size_a := get_available_size X sz\<rparr>, v)"
  using assms by (simp add: Pipe_get_id_sdr_def)

text \<open>
  C6. The constructor where it departs from the specification. A tee constructed with outlet
  types (two stoppers, or none) raises the \<^verbatim>\<open>TypeError\<close> of an unexpected keyword
  argument, not the \<^verbatim>\<open>ValueError\<close> of the stopper check; a tee constructed with an
  outlet raises the same \<^verbatim>\<open>TypeError\<close>, so the outlet never becomes its \<^verbatim>\<open>next\<close>.
\<close>

theorem Tee_init_rejects_outlet_options:
  "Tee_init X reg H a [(''left_type'', Str ''stopper''), (''right_type'', Str ''stopper'')]
     = Inl (TypeError (unexpected_kw ''left_type''))
   \<and> Tee_init X reg H a [(''left_type'', Str ''run''), (''right_type'', Str ''branch'')]
     = Inl (TypeError (unexpected_kw ''left_type''))
   \<and> Tee_init X reg H a [(''left'', Ref p), (''left_type'', Str ''run'')]
     = Inl (TypeError (unexpected_kw ''left''))
   \<and> Tee_init X reg H a [(''right'', Ref p), (''left_type'', Str ''stopper''), (''right_type'', Str ''run'')]
     = Inl (TypeError (unexpected_kw ''right''))"
  by (simp add: Tee_init_eq has_key_def bind_q_temp_def)

text \<open>
  C7. The constructor where it departs from the specification. A pipe constructed with a size,
  or with an inner diameter, with or without a spec, raises the \<^verbatim>\<open>TypeError\<close> of an
  unexpected keyword argument: nothing is derived and nothing is snapped.
\<close>

theorem Pipe_init_rejects_size_and_id_options:
  "Pipe_init X reg H a [(''size'', Num s)] = Inl (TypeError (unexpected_kw ''size''))
   \<and> Pipe_init X reg H a [(''id'', Num i)] = Inl (TypeError (unexpected_kw ''id''))
   \<and> Pipe_init X reg H a [(''size'', Num s), (''spec'', Str ''sdr41'')] = Inl (TypeError (unexpected_kw ''size''))
   \<and> Pipe_init X reg H a [(''spec'', Str ''sdr26''), (''id'', Num i)] = Inl (TypeError (unexpected_kw ''spec''))"
  by (simp add: Pipe_init_eq has_key_def bind_q_temp_def)

section \<open>The flow solver never returns\<close>

lemma flow_loop_first_iteration:
  "flow_loop X H d self t reg flow 1 hl =
     (case truediv X (t - hl) (t + hl) of
        Inl e \<Rightarrow> Some (Inl e)
      | Inr err' \<Rightarrow> Some (Inl (AttributeError no_setter)))"
  by (subst flow_loop.simps) (simp add: Component_set_q_def split: sum.splits)

lemma flow_pipeline_raises:
  "\<exists>e. flow_pipeline X reg H d self t = Some (Inl e)"
  by (simp add: flow_pipeline_def flow_loop_first_iteration split: sum.splits)

lemma set_next_components_q_raises:
  assumes "next_a self = Some n" and "record_of reg self = Some r"
  shows "set_next_components_q reg H (Suc d) self = Inl (AttributeError no_setter)"
  using assms
  by (auto simp: record_of_def Component_q_def Component_set_q_def split: option.splits)

lemma flow_seed_no_pipe:
  assumes "py_type self \<noteq> Pipe"
    and "next_a self = None \<or> (\<exists>n. next_a self = Some n \<and> py_type (H n) \<noteq> Pipe)"
  shows "flow_seed X H self t = Inl (AttributeError neither_msg)"
  using assms
  by (auto simp: flow_seed_def py_type_def split: variant.splits option.splits)

lemma headloss_pipeline_terminal:
  "next_a self = None \<Longrightarrow> 0 < d \<Longrightarrow> headloss_pipeline X reg H d self = headloss X reg self"
  by (cases d) simp_all

lemma register_reg0_4:
  "configs (register reg0 4 qv tv) (hex 4) = Some 3"
  "plant_inputs (register reg0 4 qv tv) 3 = \<lparr>pi_q = qv, pi_temp = tv\<rparr>"
  by (simp_all add: register_def reg0_def hex_def hex_digits.simps)

lemma default_Pipe_ext0:
  "default_Pipe ext0 4 =
     \<lparr>mem_loc = Some (hex 4), size_a = 1/2, nu = 1, next_a = None, k_minor = 0, id_a = 476/1000,
      variant = PipeV \<lparr>spec = ''sdr41'', length_a = 1, pipe_rough = 1/10\<rparr>\<rparr>"
  by (simp add: default_Pipe_def get_available_size_def ext0_def)

lemma lone_elbow_is_default: "default_Elbow ext0 2 = lone_elbow"
  by (simp add: default_Elbow_def lone_elbow_def get_available_size_def ext0_def)

lemma flow0:
  "flow_seed ext0 heap0 pipe1 1 = Inr (476/1000)"
  "headloss_pipeline ext0 reg0 heap0 3 pipe1 = Inr 43"
  "truediv ext0 (1 - 43) (1 + 43) = Inr (- 42 / 44)"
proof -
  show "flow_seed ext0 heap0 pipe1 1 = Inr (476/1000)"
    by (simp add: flow_seed_def py_type_def pipe1_def ext0_def)
  show "headloss_pipeline ext0 reg0 heap0 3 pipe1 = Inr 43"
    by (rule headloss_pipeline0)
  show "truediv ext0 (1 - 43) (1 + 43) = Inr (- 42 / 44)"
    by (simp add: ext0_def)
qed

text \<open>
  C10, as amended. An assignment to \<^verbatim>\<open>q\<close> raises \<^verbatim>\<open>AttributeError\<close>. For a
  registered component with a next one, \<^verbatim>\<open>set_next_components_q\<close> raises it.
  \<^verbatim>\<open>flow_pipeline\<close> always ends in an exception and never returns a flow rate. When
  the first guess, the aggregate head loss and the quotient of the first iteration
  evaluate, the exception is the \<^verbatim>\<open>AttributeError\<close> of the assignment \<^verbatim>\<open>self.q = flow\<close>
  in the first iteration. When the component is not a pipe and its next is \<^verbatim>\<open>None\<close>
  or not a pipe, the exception is the \<^verbatim>\<open>AttributeError\<close> of the first guess, raised
  before the loop.
\<close>

theorem q_has_no_setter:
  "Component_set_q reg c v = Inl (AttributeError no_setter)
   \<and> (next_a self = Some n \<and> record_of reg self \<noteq> None \<longrightarrow>
        set_next_components_q reg H (Suc d) self = Inl (AttributeError no_setter))
   \<and> (\<exists>e. flow_pipeline X reg H d self t = Some (Inl e))
   \<and> (\<forall>res. flow_pipeline X reg H d self t \<noteq> Some (Inr res))
   \<and> (flow_seed X H self t = Inr flow \<and> headloss_pipeline X reg H d self = Inr hl
        \<and> truediv X (t - hl) (t + hl) = Inr err \<longrightarrow>
        flow_pipeline X reg H d self t = Some (Inl (AttributeError no_setter)))
   \<and> (py_type self \<noteq> Pipe
        \<and> (next_a self = None \<or> (\<exists>n. next_a self = Some n \<and> py_type (H n) \<noteq> Pipe)) \<longrightarrow>
        flow_pipeline X reg H d self t = Some (Inl (AttributeError neither_msg)))"
proof -
  have a: "Component_set_q reg c v = Inl (AttributeError no_setter)"
    by (simp add: Component_set_q_def)
  have b: "next_a self = Some n \<and> record_of reg self \<noteq> None \<longrightarrow>
        set_next_components_q reg H (Suc d) self = Inl (AttributeError no_setter)"
    using set_next_components_q_raises by blast
  from flow_pipeline_raises obtain e where e: "flow_pipeline X reg H d self t = Some (Inl e)"
    by blast
  have c: "\<exists>e. flow_pipeline X reg H d self t = Some (Inl e)"
    using e by blast
  have d: "\<forall>res. flow_pipeline X reg H d self t \<noteq> Some (Inr res)"
    using e by simp
  have f: "flow_seed X H self t = Inr flow \<and> headloss_pipeline X reg H d self = Inr hl
        \<and> truediv X (t - hl) (t + hl) = Inr err \<longrightarrow>
        flow_pipeline X reg H d self t = Some (Inl (AttributeError no_setter))"
    by (simp add: flow_pipeline_def flow_loop_first_iteration)
  have g: "py_type self \<noteq> Pipe
        \<and> (next_a self = None \<or> (\<exists>n. next_a self = Some n \<and> py_type (H n) \<noteq> Pipe)) \<longrightarrow>
        flow_pipeline X reg H d self t = Some (Inl (AttributeError neither_msg))"
    using flow_seed_no_pipe [of self H X t] by (simp add: flow_pipeline_def)
  show ?thesis using a b c d f g by (intro conjI)
qed

theorem q_has_no_setter_witness:
  "set_next_components_q reg0 heap0 (Suc 2) pipe1 = Inl (AttributeError no_setter)
   \<and> flow_pipeline ext0 reg0 heap0 3 pipe1 1 = Some (Inl (AttributeError no_setter))
   \<and> flow_pipeline ext0 reg0 heap0 3 lone_elbow 1 = Some (Inl (AttributeError neither_msg))"
proof -
  have h1: "next_a pipe1 = Some 2 \<and> record_of reg0 pipe1 \<noteq> None"
    by (simp add: record_of_def pipe1_def reg0_def hex_values)
  have h2: "flow_seed ext0 heap0 pipe1 1 = Inr (476/1000)
      \<and> headloss_pipeline ext0 reg0 heap0 3 pipe1 = Inr 43
      \<and> truediv ext0 (1 - 43) (1 + 43) = Inr (- 42 / 44)"
    using flow0 by (intro conjI)
  have h3: "py_type lone_elbow \<noteq> Pipe
      \<and> (next_a lone_elbow = None \<or> (\<exists>n. next_a lone_elbow = Some n \<and> py_type (heap0 n) \<noteq> Pipe))"
    by (simp add: lone_elbow_def py_type_def)
  note a = q_has_no_setter [where H = heap0 and d = 2,
      THEN conjunct2, THEN conjunct1, THEN mp, OF h1]
  note b = q_has_no_setter [THEN conjunct2, THEN conjunct2, THEN conjunct2, THEN conjunct2,
      THEN conjunct1, THEN mp, OF h2]
  note c = q_has_no_setter [where X = ext0 and t = 1 and reg = reg0 and d = 3,
      THEN conjunct2, THEN conjunct2, THEN conjunct2, THEN conjunct2,
      THEN conjunct2, THEN mp, OF h3]
  show ?thesis using a b c by (intro conjI)
qed

text \<open>
  C10 without the amendment fails for a lone elbow, as \<^verbatim>\<open>Elbow()\<close> constructs it: the
  exception is the one raised for the missing pipe, before the loop is entered, and not
  the one of the assignment.
\<close>

theorem flow_pipeline_not_always_in_loop_counterexample:
  "Elbow_init ext0 reg0 heap0 2 [] = Inr (lone_elbow, reg0)
   \<and> flow_seed ext0 heap0 lone_elbow 1 = Inl (AttributeError neither_msg)
   \<and> flow_pipeline ext0 reg0 heap0 1000 lone_elbow 1 = Some (Inl (AttributeError neither_msg))
   \<and> flow_pipeline ext0 reg0 heap0 1000 lone_elbow 1 \<noteq> Some (Inl (AttributeError no_setter))"
proof -
  have init: "Elbow_init ext0 reg0 heap0 2 [] = Inr (lone_elbow, reg0)"
    by (simp add: Elbow_init_eq has_key_def bind_q_temp_def lone_elbow_is_default
          register_def reg0_def hex_values)
  have seed: "flow_seed ext0 heap0 lone_elbow 1 = Inl (AttributeError neither_msg)"
    by (rule flow_seed_no_pipe) (simp_all add: lone_elbow_def py_type_def)
  have run: "flow_pipeline ext0 reg0 heap0 1000 lone_elbow 1 = Some (Inl (AttributeError neither_msg))"
    by (simp add: flow_pipeline_def seed)
  have diff: "neither_msg \<noteq> no_setter"
    by (simp add: neither_msg_def no_setter_def)
  show ?thesis using init seed run diff by simp
qed

text \<open>
  C1. The solver where it departs from the specification. \<^verbatim>\<open>flow_pipeline\<close> returns no
  flow rate on any pipeline and for any target; on the pipe that \<^verbatim>\<open>Pipe()\<close>
  constructs, with the target head loss 1, it raises the \<^verbatim>\<open>AttributeError\<close> of the
  assignment \<^verbatim>\<open>self.q = flow\<close>.
\<close>

theorem flow_pipeline_returns_no_flow:
  "flow_pipeline X reg H d self t \<noteq> Some (Inr (flow, reg'))
   \<and> Pipe_init ext0 reg0 heap0 4 [] = Inr (default_Pipe ext0 4, register reg0 4 (Num 20) (Num 20))
   \<and> flow_pipeline ext0 (register reg0 4 (Num 20) (Num 20)) heap0 1000 (default_Pipe ext0 4) 1
       = Some (Inl (AttributeError no_setter))"
proof -
  from flow_pipeline_raises obtain e where "flow_pipeline X reg H d self t = Some (Inl e)"
    by blast
  then have a: "flow_pipeline X reg H d self t \<noteq> Some (Inr (flow, reg'))"
    by simp
  have b: "Pipe_init ext0 reg0 heap0 4 [] = Inr (default_Pipe ext0 4, register reg0 4 (Num 20) (Num 20))"
    by (simp add: Pipe_init_eq has_key_def bind_q_temp_def)
  have seed: "flow_seed ext0 heap0 (default_Pipe ext0 4) 1 = Inr (476/1000)"
    by (simp add: flow_seed_def py_type_def default_Pipe_ext0) (simp add: ext0_def)
  have hl: "headloss_pipeline ext0 (register reg0 4 (Num 20) (Num 20)) heap0 1000 (default_Pipe ext0 4) = Inr 20"
    by (simp add: headloss_pipeline_terminal default_Pipe_ext0 headloss_def Pipe_headloss_def
          Component_q_def register_reg0_4) (simp add: ext0_def)
  have c: "flow_pipeline ext0 (register reg0 4 (Num 20) (Num 20)) heap0 1000 (default_Pipe ext0 4) 1
       = Some (Inl (AttributeError no_setter))"
    by (simp add: flow_pipeline_def seed hl flow_loop_first_iteration) (simp add: ext0_def)
  show ?thesis using a b c by (intro conjI)
qed

end
